theory Spec2Isabelle
  imports
    Main
    "HOL-Library.Char_ord"
    "HOL-Library.List_Lexorder"
    "HOL-Library.Multiset"
begin

section \<open>Values of the order table\<close>

text \<open>
  The order export is held in a pandas DataFrame. A cell of an object column is a Python
  \<open>str\<close>, the missing value \<open>NaN\<close>, or a number that \<open>read_csv\<close> parsed (a column of
  digits only). Of a number the code only ever uses its \<open>str()\<close> rendering, so a number is
  carried as that rendering: \<open>Num ''1425.0''\<close> is the float whose \<open>str()\<close> is \<open>1425.0\<close>.

  A character is a code point below 256; on these Python's \<open>isnumeric\<close> and whitespace
  tables are reproduced in full. String order is the code-point lexicographic order, as in
  Python.
\<close>

datatype cell = Str string | NaN | Num string

datatype py_error = AttributeError | IndexError | ValueError

text \<open>\<open>str(x)\<close>\<close>

fun py_str :: "cell \<Rightarrow> string" where
  "py_str (Str s) = s"
| "py_str NaN = ''nan''"
| "py_str (Num r) = r"

text \<open>\<open>pd.notnull(x)\<close> / \<open>pd.notna(x)\<close>\<close>

fun notnull :: "cell \<Rightarrow> bool" where
  "notnull NaN = False"
| "notnull _ = True"

text \<open>\<open>isinstance(x, str)\<close>\<close>

fun isinstance_str :: "cell \<Rightarrow> bool" where
  "isinstance_str (Str _) = True"
| "isinstance_str _ = False"

text \<open>\<open>x == 'literal'\<close>: a string equals only the same string; NaN and numbers never do.\<close>

definition eq_str :: "cell \<Rightarrow> string \<Rightarrow> bool" where
  "eq_str c s = (c = Str s)"

text \<open>\<open>s.startswith(p)\<close> and \<open>s.startswith((p1, p2, ...))\<close>\<close>

definition startswith :: "string \<Rightarrow> string \<Rightarrow> bool" where
  "startswith s p = (take (length p) s = p)"

definition startswith_any :: "string \<Rightarrow> string list \<Rightarrow> bool" where
  "startswith_any s ps = list_ex (startswith s) ps"

text \<open>
  \<open>s.isnumeric()\<close>: non-empty and every character numeric. Below 256 the numeric
  characters are the ten digits, the superscripts two, three, one (178, 179, 185) and the
  fractions (188, 189, 190).
\<close>

definition numeric_char :: "char \<Rightarrow> bool" where
  "numeric_char c =
     (let n = (of_char c :: nat)
      in (48 \<le> n \<and> n \<le> 57) \<or> n = 178 \<or> n = 179 \<or> n = 185 \<or> n = 188 \<or> n = 189 \<or> n = 190)"

definition isnumeric :: "string \<Rightarrow> bool" where
  "isnumeric s = (s \<noteq> [] \<and> list_all numeric_char s)"

text \<open>
  \<open>s.strip()\<close>: whitespace removed at both ends. Below 256 whitespace is 9..13, 28..32,
  133 and 160.
\<close>

definition space_char :: "char \<Rightarrow> bool" where
  "space_char c =
     (let n = (of_char c :: nat)
      in (9 \<le> n \<and> n \<le> 13) \<or> (28 \<le> n \<and> n \<le> 32) \<or> n = 133 \<or> n = 160)"

definition strip :: "string \<Rightarrow> string" where
  "strip s = rev (dropWhile space_char (rev (dropWhile space_char s)))"

text \<open>
  \<open>Series.str.replace(pat, "")\<close> with the literal (non-regex) reading of \<open>pat\<close>, the
  default of pandas 2, for the patterns the code uses: one character, \<open>".0"\<close> and \<open>"nan"\<close>. Occurrences are removed
  left to right, without overlap.
\<close>

definition replace_char :: "char \<Rightarrow> string \<Rightarrow> string" where
  "replace_char c s = filter (\<lambda>x. x \<noteq> c) s"

fun replace_dot0 :: "string \<Rightarrow> string" where
  "replace_dot0 [] = []"
| "replace_dot0 [c] = [c]"
| "replace_dot0 (c # d # s) =
     (if c = CHR ''.'' \<and> d = CHR ''0'' then replace_dot0 s else c # replace_dot0 (d # s))"

fun replace_nan :: "string \<Rightarrow> string" where
  "replace_nan (c # d # e # s) =
     (if c = CHR ''n'' \<and> d = CHR ''a'' \<and> e = CHR ''n'' then replace_nan s
      else c # replace_nan (d # e # s))"
| "replace_nan s = s"

text \<open>\<open>Series.astype(str)\<close>, cell by cell.\<close>

definition astype_str :: "cell \<Rightarrow> cell" where
  "astype_str c = Str (py_str c)"

text \<open>\<open>Series.str.replace\<close> acts on the strings of the series and leaves other cells.\<close>

fun str_map :: "(string \<Rightarrow> string) \<Rightarrow> cell \<Rightarrow> cell" where
  "str_map f (Str s) = Str (f s)"
| "str_map f c = c"

text \<open>\<open>Series.fillna("")\<close>\<close>

fun fillna_empty :: "cell \<Rightarrow> cell" where
  "fillna_empty NaN = Str []"
| "fillna_empty c = c"

section \<open>Dates and the clock\<close>

text \<open>
  Parsing and formatting dates is the library's work, and the fallback date is the clock's.
  They enter every function as an environment, and every property is stated for any
  environment.

  A scalar \<open>pd.to_datetime(x, errors='raise')\<close> raises, or returns the not-a-time value
  \<open>NaT\<close>, or a timestamp; of a timestamp the code only uses \<open>strftime('%d-%m-%Y')\<close>, so
  a timestamp is carried as that rendering. \<open>NaT.strftime\<close> raises ValueError.

  \<open>fechas_columna\<close> is the pair of calls
  \<open>pd.to_datetime(column, errors='coerce')\<close> and \<open>.dt.strftime('%d/%m/%Y')\<close> on a whole
  column: it raises (the \<open>.dt\<close> accessor raises AttributeError when the parsed column
  is not datetime-like, as with mixed UTC offsets), or returns the display text of each
  position. \<open>hoy\<close> is \<open>datetime.now().strftime('%d-%m-%Y')\<close>.
\<close>

datatype marca = NaT | Marca string

record entorno =
  to_datetime :: "cell \<Rightarrow> py_error + marca"
  fechas_columna :: "cell list \<Rightarrow> py_error + (nat \<Rightarrow> cell)"
  hoy :: string

section \<open>Tables\<close>

text \<open>
  A table is the list of its rows in row order. The order number \<open>Name\<close> is a string in
  every row (it is the grouping and sorting key). The index labels of the source table are
  distinct (the loader concatenates with \<open>ignore_index=True\<close>), and the working copy shares
  them, so \<open>.loc[index, 'Status']\<close> inside a loop over \<open>iterrows()\<close> addresses the row of
  the working copy at the position being visited.
\<close>

record named_row =
  Name :: string

text \<open>A row of the source table \<open>archcsv1\<close> / \<open>archcsv2\<close>, with the columns either processor reads.\<close>

record order_line = named_row +
  Created_at :: cell
  Shipping_Name :: cell
  Lineitem_quantity :: cell
  Lineitem_name :: cell
  Total :: cell
  Shipping_Province_Name :: cell
  Shipping_Street :: cell
  Shipping_Address2 :: cell
  Shipping_City :: cell
  Shipping_Zip :: cell
  Shipping_Phone :: cell
  Email :: cell
  Lineitem_sku :: cell
  Financial_Status :: cell
  Shipping_Method :: cell
  Shipping_Company :: cell
  Notes :: cell

text \<open>A row of a working copy: it has the order number and the inserted \<open>Status\<close> column.\<close>

record status_row = named_row +
  Status :: string

text \<open>The generic layout (\<open>columnas_a_copiar\<close> of FiltroArgentina).\<close>

record arg_row = status_row +
  A_Created_at :: cell
  A_Shipping_Name :: cell
  A_Lineitem_quantity :: cell
  A_Lineitem_name :: cell
  A_Total :: cell
  A_Shipping_Province_Name :: cell
  A_Shipping_Street :: cell
  A_Shipping_Zip :: cell
  A_Shipping_Phone :: cell
  NC2 :: string
  NC3 :: string
  NC4 :: string
  A_Email :: cell
  A_Lineitem_sku :: cell

text \<open>The carrier layout (\<open>columnas_a_copiar2\<close> of filtroAndreani).\<close>

record and_row = status_row +
  Peso :: string
  Alto :: string
  Ancho :: string
  Profun :: string
  Val_decl :: string
  B_Shipping_Name :: cell
  NC :: string
  B_Shipping_Company :: cell
  B_Email :: cell
  CodNum :: string
  B_Shipping_Phone :: cell
  B_Shipping_Street :: cell
  B_Shipping_Address2 :: cell
  B_Shipping_City :: cell
  B_Shipping_Zip :: cell
  B_Shipping_Province_Name :: cell
  B_Notes :: cell

section \<open>Constants of the classification\<close>

text \<open>
  The tuple of postal prefixes of both processors, in the order written there; the
  apostrophe of the quoted forms is character 39.
\<close>

definition caba_prefixes :: "string list" where
  "caba_prefixes =
     [''C14'', ''C11'', ''C10'', ''C12'', ''C15'', ''C13'',
      CHR 0x27 # ''15'', CHR 0x27 # ''14'', CHR 0x27 # ''13'',
      CHR 0x27 # ''12'', CHR 0x27 # ''11'', CHR 0x27 # ''10'',
      ''15'', ''14'', ''13'', ''12'', ''11'', ''10'']"

text \<open>The shipping method \<open>Envio Prioritario + Garantia extendida\<close>, with i-acute (237) twice.\<close>

definition envio_prioritario :: string where
  "envio_prioritario =
     ''Env'' @ [CHR 0xED] @ ''o Prioritario + Garant'' @ [CHR 0xED] @ ''a extendida''"

section \<open>Loops over the table\<close>

text \<open>
  \<open>for index, row in archcsv.iterrows(): ... columnas.loc[index, 'Status'] = v\<close>: the body
  reads the source row and may overwrite the status of the working row at the same label.
  The body is given as the status it leaves, from the source row and the status found.
\<close>

fun iter_status ::
  "(order_line \<Rightarrow> string \<Rightarrow> string) \<Rightarrow> order_line list \<Rightarrow>
   'a status_row_scheme list \<Rightarrow> 'a status_row_scheme list" where
  "iter_status f (row # rows) (c # cs) = c\<lparr>Status := f row (Status c)\<rparr> # iter_status f rows cs"
| "iter_status f _ cs = cs"

text \<open>The same loop with a body that may raise: the exception leaves the loop at once.\<close>

fun iter_status_raising ::
  "(order_line \<Rightarrow> string \<Rightarrow> py_error + string) \<Rightarrow> order_line list \<Rightarrow>
   'a status_row_scheme list \<Rightarrow> py_error + 'a status_row_scheme list" where
  "iter_status_raising f (row # rows) (c # cs) =
     (case f row (Status c) of
        Inl e \<Rightarrow> Inl e
      | Inr s \<Rightarrow>
          (case iter_status_raising f rows cs of
             Inl e \<Rightarrow> Inl e
           | Inr cs' \<Rightarrow> Inr (c\<lparr>Status := s\<rparr> # cs')))"
| "iter_status_raising f _ cs = Inr cs"

text \<open>\<open>note.strip()\<close> on a cell: only a \<open>str\<close> has the method.\<close>

fun cell_strip :: "cell \<Rightarrow> py_error + string" where
  "cell_strip (Str s) = Inr (strip s)"
| "cell_strip _ = Inl AttributeError"

section \<open>FiltroArgentina: the four loops\<close>

definition fa_bucle1 :: "order_line \<Rightarrow> string \<Rightarrow> string" where
  "fa_bucle1 row st =
     (if isinstance_str (Shipping_Company row) \<and> eq_str (Financial_Status row) ''paid'' then
        (if startswith (py_str (Shipping_Company row)) ''DNI '' then st
         else if \<not> isnumeric (py_str (Shipping_Company row)) then ''REVISAR DNI''
         else st)
      else if eq_str (Financial_Status row) ''expired'' then ''VENCIDO''
      else if eq_str (Financial_Status row) ''refunded'' then ''REEMBOLSADO''
      else if eq_str (Financial_Status row) ''pending'' then ''FALTA PAGAR''
      else st)"

definition fa_bucle2 :: "order_line \<Rightarrow> string \<Rightarrow> string" where
  "fa_bucle2 row st =
     (if eq_str (Financial_Status row) ''paid''
         \<and> startswith_any (py_str (Shipping_Zip row)) caba_prefixes then ''CABA''
      else if eq_str (Financial_Status row) ''paid''
         \<and> eq_str (Shipping_Method row) envio_prioritario then ''PRIORITARIO''
      else st)"

definition fa_bucle3 :: "order_line \<Rightarrow> string \<Rightarrow> string" where
  "fa_bucle3 row st =
     (if eq_str (Financial_Status row) ''paid''
         \<and> eq_str (Shipping_Method row) envio_prioritario
         \<and> startswith_any (py_str (Shipping_Zip row)) caba_prefixes then ''CABA PRIORITARIO''
      else st)"

text \<open>
  Loop 4 tests \<open>paid and pd.notnull(note) and note.strip()\<close> left to right, so \<open>strip\<close> is
  called exactly on the non-null notes of paid rows.
\<close>

definition fa_tierra :: "order_line \<Rightarrow> string \<Rightarrow> string" where
  "fa_tierra row st =
     (if eq_str (Financial_Status row) ''paid''
         \<and> eq_str (Shipping_Province_Name row) ''Tierra del Fuego'' then ''TIERRA DEL FUEGO''
      else st)"

definition fa_bucle4 :: "order_line \<Rightarrow> string \<Rightarrow> py_error + string" where
  "fa_bucle4 row st =
     (if eq_str (Financial_Status row) ''paid'' \<and> notnull (Notes row) then
        (case cell_strip (Notes row) of
           Inl e \<Rightarrow> Inl e
         | Inr n \<Rightarrow> if n \<noteq> [] then Inr ''REVISAR NOTAS EN SHOPIFY'' else Inr (fa_tierra row st))
      else Inr (fa_tierra row st))"

section \<open>filtroAndreani: the four loops\<close>

definition fan_bucle1 :: "order_line \<Rightarrow> string \<Rightarrow> string" where
  "fan_bucle1 row st =
     (if isinstance_str (Shipping_Company row) \<and> eq_str (Financial_Status row) ''paid'' then
        (if startswith (py_str (Shipping_Company row)) ''DNI '' then st
         else if \<not> isnumeric (py_str (Shipping_Company row)) then ''REVISAR DNI''
         else st)
      else if eq_str (Financial_Status row) ''expired'' then ''VENCIDO''
      else if eq_str (Financial_Status row) ''refunded'' then ''REEMBOLSADO''
      else if eq_str (Financial_Status row) ''pending'' then ''FALTA PAGAR''
      else st)"

definition fan_bucle2 :: "order_line \<Rightarrow> string \<Rightarrow> string" where
  "fan_bucle2 row st =
     (if eq_str (Financial_Status row) ''paid''
         \<and> startswith_any (py_str (Shipping_Zip row)) caba_prefixes then ''CABA''
      else if eq_str (Financial_Status row) ''paid''
         \<and> eq_str (Shipping_Method row) envio_prioritario then ''PRIORITARIO''
      else st)"

definition fan_bucle3 :: "order_line \<Rightarrow> string \<Rightarrow> string" where
  "fan_bucle3 row st =
     (if eq_str (Financial_Status row) ''paid''
         \<and> eq_str (Shipping_Method row) envio_prioritario
         \<and> startswith_any (py_str (Shipping_Zip row)) caba_prefixes then ''CABA PRIORITARIO''
      else st)"

definition fan_tierra :: "order_line \<Rightarrow> string \<Rightarrow> string" where
  "fan_tierra row st =
     (if eq_str (Financial_Status row) ''paid''
         \<and> eq_str (Shipping_Province_Name row) ''Tierra del Fuego'' then ''TIERRA DEL FUEGO''
      else st)"

definition fan_bucle4 :: "order_line \<Rightarrow> string \<Rightarrow> py_error + string" where
  "fan_bucle4 row st =
     (if eq_str (Financial_Status row) ''paid'' \<and> notnull (Notes row) then
        (case cell_strip (Notes row) of
           Inl e \<Rightarrow> Inl e
         | Inr n \<Rightarrow> if n \<noteq> [] then Inr ''REVISAR NOTAS EN SHOPIFY'' else Inr (fan_tierra row st))
      else Inr (fan_tierra row st))"

section \<open>One status per order\<close>

text \<open>
  \<open>df.groupby('Name')\<close>: one group per distinct order number, the groups in ascending key
  order, each group holding its rows in table order. The rows returned by \<open>apply\<close> come
  out group by group, as pandas 2 does with its default \<open>group_keys=True\<close>; when the table
  is sorted by order number, as the loader leaves it, this is the table order.
\<close>

definition groupby_Name :: "'a named_row_scheme list \<Rightarrow> 'a named_row_scheme list list" where
  "groupby_Name df = map (\<lambda>k. filter (\<lambda>r. Name r = k) df) (sort (remdups (map Name df)))"

text \<open>
  \<open>assign_status\<close>, the same text in both processors: \<open>group['Status'].iloc[0]\<close> raises
  IndexError on an empty group.
\<close>

fun assign_status :: "'a status_row_scheme list \<Rightarrow> py_error + 'a status_row_scheme list" where
  "assign_status [] = Inl IndexError"
| "assign_status (g # gs) = Inr (map (\<lambda>r. r\<lparr>Status := Status g\<rparr>) (g # gs))"

text \<open>
  \<open>.apply(f)\<close> calls \<open>f\<close> on each group in turn and concatenates the returned groups in
  group order; \<open>.reset_index(drop=True)\<close> then renumbers the rows and keeps their order.
\<close>

fun apply_groups :: "('g \<Rightarrow> py_error + 'r list) \<Rightarrow> 'g list \<Rightarrow> py_error + 'r list" where
  "apply_groups f [] = Inr []"
| "apply_groups f (g # gs) =
     (case f g of
        Inl e \<Rightarrow> Inl e
      | Inr r \<Rightarrow> (case apply_groups f gs of Inl e \<Rightarrow> Inl e | Inr rs \<Rightarrow> Inr (r @ rs)))"

definition unificar_status ::
  "'a status_row_scheme list \<Rightarrow> py_error + 'a status_row_scheme list" where
  "unificar_status df = apply_groups assign_status (groupby_Name df)"

section \<open>Statistics\<close>

text \<open>\<open>len(df[df['Status'] == k]['Name'].unique())\<close>\<close>

definition contar :: "string \<Rightarrow> 'a status_row_scheme list \<Rightarrow> nat" where
  "contar k df = length (remdups (map Name (filter (\<lambda>r. Status r = k) df)))"

record estadisticas =
  caba :: nat
  falta_pagar :: nat
  vencido :: nat
  reembolsado :: nat
  notas :: nat
  sin_clasificar :: nat
  revisar_dni :: nat

definition calcular_estadisticas :: "'a status_row_scheme list \<Rightarrow> estadisticas" where
  "calcular_estadisticas df =
     \<lparr>caba = contar ''CABA'' df,
      falta_pagar = contar ''FALTA PAGAR'' df,
      vencido = contar ''VENCIDO'' df,
      reembolsado = contar ''REEMBOLSADO'' df,
      notas = contar ''REVISAR NOTAS EN SHOPIFY'' df,
      sin_clasificar = contar [] df,
      revisar_dni = contar ''REVISAR DNI'' df\<rparr>"

text \<open>The \<open>total\<close> that \<open>actualizar_estadisticas\<close> of Ventana_de_estado computes and shows.\<close>

definition actualizar_estadisticas_total :: "estadisticas \<Rightarrow> nat" where
  "actualizar_estadisticas_total e =
     caba e + falta_pagar e + vencido e + reembolsado e + notas e + sin_clasificar e
       + revisar_dni e"

section \<open>The date of the file\<close>

text \<open>
  The same text opens the date handling of both processors: the loop takes the first row
  whose \<open>Created at\<close> is not null and parses without raising (a raise is caught and the
  loop goes on), and stops there.
\<close>

fun primera_fecha :: "(cell \<Rightarrow> py_error + marca) \<Rightarrow> order_line list \<Rightarrow> marca option" where
  "primera_fecha td [] = None"
| "primera_fecha td (row # rows) =
     (if notnull (Created_at row) then
        (case td (Created_at row) of
           Inl e \<Rightarrow> primera_fecha td rows
         | Inr m \<Rightarrow> Some m)
      else primera_fecha td rows)"

text \<open>
  With no such row the clock gives the date; then \<open>strftime('%d-%m-%Y')\<close> is called on
  what was found.
\<close>

definition fecha_archivo :: "entorno \<Rightarrow> order_line list \<Rightarrow> py_error + string" where
  "fecha_archivo env archcsv =
     (case primera_fecha (to_datetime env) archcsv of
        None \<Rightarrow> Inr (hoy env)
      | Some NaT \<Rightarrow> Inl ValueError
      | Some (Marca s) \<Rightarrow> Inr s)"

section \<open>FiltroArgentina.procesar_archivo\<close>

text \<open>
  Steps 1 to 3: the twelve copied columns, the display form of \<open>Created at\<close> (given here
  as the cell to store), and the four inserted empty columns.
\<close>

definition fa_copiar :: "cell \<Rightarrow> order_line \<Rightarrow> arg_row" where
  "fa_copiar fecha row =
     \<lparr>Name = Name row, Status = [],
      A_Created_at = fecha,
      A_Shipping_Name = Shipping_Name row,
      A_Lineitem_quantity = Lineitem_quantity row,
      A_Lineitem_name = Lineitem_name row,
      A_Total = Total row,
      A_Shipping_Province_Name = Shipping_Province_Name row,
      A_Shipping_Street = Shipping_Street row,
      A_Shipping_Zip = Shipping_Zip row,
      A_Shipping_Phone = Shipping_Phone row,
      NC2 = [], NC3 = [], NC4 = [],
      A_Email = Email row,
      A_Lineitem_sku = Lineitem_sku row\<rparr>"

text \<open>The working copy with the display dates \<open>fechas\<close> stored position by position.\<close>

definition fa_columnas_a_copiar :: "(nat \<Rightarrow> cell) \<Rightarrow> order_line list \<Rightarrow> arg_row list" where
  "fa_columnas_a_copiar fechas archcsv1 =
     map (\<lambda>i. fa_copiar (fechas i) (archcsv1 ! i)) [0..<length archcsv1]"

text \<open>Step 4, written into the source table itself.\<close>

definition fa_limpiar_dni :: "order_line \<Rightarrow> order_line" where
  "fa_limpiar_dni row =
     row\<lparr>Shipping_Company :=
           str_map (replace_char CHR '' '')
             (str_map (replace_char CHR ''.'') (astype_str (Shipping_Company row)))\<rparr>"

text \<open>Steps 5 to 8 on the working copy.\<close>

definition fa_clasificar :: "order_line list \<Rightarrow> arg_row list \<Rightarrow> py_error + arg_row list" where
  "fa_clasificar archcsv1 columnas =
     iter_status_raising fa_bucle4 archcsv1
       (iter_status fa_bucle3 archcsv1
         (iter_status fa_bucle2 archcsv1
           (iter_status fa_bucle1 archcsv1 columnas)))"

text \<open>Step 10: the phone column of the final table.\<close>

definition fa_arreglar_telefono :: "arg_row \<Rightarrow> arg_row" where
  "fa_arreglar_telefono r =
     r\<lparr>A_Shipping_Phone := str_map replace_dot0 (astype_str (A_Shipping_Phone r))\<rparr>"

text \<open>
  The whole function, in the order of the source: the date of the file, the display dates,
  the cleaning of the id field, the four loops, the consolidation, the phone column, the
  statistics. The result holds the source table as the call leaves it, the final table,
  the date of the file and the statistics handed to the status window.
\<close>

definition fa_procesar_archivo ::
  "entorno \<Rightarrow> order_line list \<Rightarrow>
   py_error + (order_line list \<times> arg_row list \<times> string \<times> estadisticas)" where
  "fa_procesar_archivo env archcsv1 =
     (case fecha_archivo env archcsv1 of
        Inl e \<Rightarrow> Inl e
      | Inr Fecha \<Rightarrow>
          (case fechas_columna env (map Created_at archcsv1) of
             Inl e \<Rightarrow> Inl e
           | Inr fechas \<Rightarrow>
               (let columnas_a_copiar = fa_columnas_a_copiar fechas archcsv1;
                    archcsv1' = map fa_limpiar_dni archcsv1
                in case fa_clasificar archcsv1' columnas_a_copiar of
                     Inl e \<Rightarrow> Inl e
                   | Inr clasificadas \<Rightarrow>
                       (case unificar_status clasificadas of
                          Inl e \<Rightarrow> Inl e
                        | Inr unificadas \<Rightarrow>
                            (let ArchivoFinal = map fa_arreglar_telefono unificadas
                             in Inr (archcsv1', ArchivoFinal, Fecha,
                                     calcular_estadisticas ArchivoFinal))))))"

section \<open>filtroAndreani.procesar_archivo\<close>

text \<open>Steps 2 and 3: the eleven copied columns and the eight inserted empty columns.\<close>

definition fan_copiar :: "order_line \<Rightarrow> and_row" where
  "fan_copiar row =
     \<lparr>Name = Name row, Status = [],
      Peso = [], Alto = [], Ancho = [], Profun = [], Val_decl = [],
      B_Shipping_Name = Shipping_Name row,
      NC = [],
      B_Shipping_Company = Shipping_Company row,
      B_Email = Email row,
      CodNum = [],
      B_Shipping_Phone = Shipping_Phone row,
      B_Shipping_Street = Shipping_Street row,
      B_Shipping_Address2 = Shipping_Address2 row,
      B_Shipping_City = Shipping_City row,
      B_Shipping_Zip = Shipping_Zip row,
      B_Shipping_Province_Name = Shipping_Province_Name row,
      B_Notes = Notes row\<rparr>"

text \<open>Step 4, written into the source table itself.\<close>

definition fan_limpiar :: "order_line \<Rightarrow> order_line" where
  "fan_limpiar row =
     row\<lparr>Shipping_Company :=
           str_map (replace_char CHR '' '')
             (astype_str (str_map (replace_char CHR ''.'') (astype_str (Shipping_Company row)))),
         Shipping_Name := fillna_empty (Shipping_Name row),
         Shipping_Phone := str_map replace_nan (astype_str (Shipping_Phone row))\<rparr>"

definition fan_clasificar :: "order_line list \<Rightarrow> and_row list \<Rightarrow> py_error + and_row list" where
  "fan_clasificar archcsv2 columnas =
     iter_status_raising fan_bucle4 archcsv2
       (iter_status fan_bucle3 archcsv2
         (iter_status fan_bucle2 archcsv2
           (iter_status fan_bucle1 archcsv2 columnas)))"

text \<open>Step 9 (loop 5): the carrier constants, row by row.\<close>

definition fan_valores_tecnicos :: "and_row \<Rightarrow> and_row" where
  "fan_valores_tecnicos r =
     r\<lparr>Peso := ''100'', Alto := ''10'', Ancho := ''15'', Profun := ''10'',
       Val_decl := ''4500'', NC := ''.'', CodNum := ''54''\<rparr>"

definition fan_arreglar_telefono :: "and_row \<Rightarrow> and_row" where
  "fan_arreglar_telefono r =
     r\<lparr>B_Shipping_Phone := str_map replace_dot0 (astype_str (B_Shipping_Phone r))\<rparr>"

text \<open>
  The whole function: the date of the file comes first, then the copy, the cleaning, the
  four loops, the carrier constants, the consolidation and the phone column. The result
  holds the source table as the call leaves it, the final table and the date of the file.
\<close>

definition fan_procesar_archivo ::
  "entorno \<Rightarrow> order_line list \<Rightarrow> py_error + (order_line list \<times> and_row list \<times> string)" where
  "fan_procesar_archivo env archcsv2 =
     (case fecha_archivo env archcsv2 of
        Inl e \<Rightarrow> Inl e
      | Inr fecha_del_archivo \<Rightarrow>
          (let columnas_a_copiar2 = map fan_copiar archcsv2;
               archcsv2' = map fan_limpiar archcsv2
           in case fan_clasificar archcsv2' columnas_a_copiar2 of
                Inl e \<Rightarrow> Inl e
              | Inr clasificadas \<Rightarrow>
                  (case unificar_status (map fan_valores_tecnicos clasificadas) of
                     Inl e \<Rightarrow> Inl e
                   | Inr unificadas \<Rightarrow>
                       Inr (archcsv2', map fan_arreglar_telefono unificadas,
                            fecha_del_archivo))))"

section \<open>Notions used by the properties\<close>

text \<open>
  The four loop bodies in sequence on one line: the status a line holds after loop 4,
  from the status \<open>st\<close> it held before loop 1.
\<close>

definition fa_status_fila :: "order_line \<Rightarrow> string \<Rightarrow> py_error + string" where
  "fa_status_fila row st = fa_bucle4 row (fa_bucle3 row (fa_bucle2 row (fa_bucle1 row st)))"

definition fan_status_fila :: "order_line \<Rightarrow> string \<Rightarrow> py_error + string" where
  "fan_status_fila row st = fan_bucle4 row (fan_bucle3 row (fan_bucle2 row (fan_bucle1 row st)))"

text \<open>A line whose note loop 4 can read: not a paid line with a number as note.\<close>

fun is_Num :: "cell \<Rightarrow> bool" where
  "is_Num (Num _) = True"
| "is_Num _ = False"

definition nota_legible :: "order_line \<Rightarrow> bool" where
  "nota_legible row = (\<not> (eq_str (Financial_Status row) ''paid'' \<and> is_Num (Notes row)))"

text \<open>Order number and status of a working row, and a working row with its status blanked.\<close>

definition clave_status :: "'a status_row_scheme \<Rightarrow> string \<times> string" where
  "clave_status r = (Name r, Status r)"

definition sin_status :: "'a status_row_scheme \<Rightarrow> 'a status_row_scheme" where
  "sin_status r = r\<lparr>Status := []\<rparr>"

text \<open>The first line of an order in a table, in row order.\<close>

definition primera_linea :: "'a named_row_scheme list \<Rightarrow> string \<Rightarrow> 'a named_row_scheme option" where
  "primera_linea df k = find (\<lambda>x. Name x = k) df"

text \<open>The \<open>Status\<close> column of the table each processor returns.\<close>

definition fa_columna_status :: "entorno \<Rightarrow> order_line list \<Rightarrow> py_error + string list" where
  "fa_columna_status env archcsv1 =
     (case fa_procesar_archivo env archcsv1 of
        Inl e \<Rightarrow> Inl e
      | Inr (_, ArchivoFinal, _, _) \<Rightarrow> Inr (map Status ArchivoFinal))"

definition fan_columna_status :: "entorno \<Rightarrow> order_line list \<Rightarrow> py_error + string list" where
  "fan_columna_status env archcsv2 =
     (case fan_procesar_archivo env archcsv2 of
        Inl e \<Rightarrow> Inl e
      | Inr (_, ArchivoFinal2, _) \<Rightarrow> Inr (map Status ArchivoFinal2))"

text \<open>The source table as a call of each processor leaves it.\<close>

definition fa_archcsv1_despues :: "entorno \<Rightarrow> order_line list \<Rightarrow> py_error + order_line list" where
  "fa_archcsv1_despues env archcsv1 =
     (case fa_procesar_archivo env archcsv1 of
        Inl e \<Rightarrow> Inl e
      | Inr (archcsv1', _, _, _) \<Rightarrow> Inr archcsv1')"

definition fan_archcsv2_despues :: "entorno \<Rightarrow> order_line list \<Rightarrow> py_error + order_line list" where
  "fan_archcsv2_despues env archcsv2 =
     (case fan_procesar_archivo env archcsv2 of
        Inl e \<Rightarrow> Inl e
      | Inr (archcsv2', _, _) \<Rightarrow> Inr archcsv2')"

text \<open>
  What the status window is given for a batch, next to what the batch holds: the status
  column, the number of distinct orders of the final table, the seven counts and the total
  shown.
\<close>

definition fa_resumen ::
  "entorno \<Rightarrow> order_line list \<Rightarrow> py_error + (string list \<times> nat \<times> estadisticas \<times> nat)" where
  "fa_resumen env archcsv1 =
     (case fa_procesar_archivo env archcsv1 of
        Inl e \<Rightarrow> Inl e
      | Inr (_, ArchivoFinal, _, e) \<Rightarrow>
          Inr (map Status ArchivoFinal, length (remdups (map Name ArchivoFinal)), e,
               actualizar_estadisticas_total e))"

text \<open>
  The library and the clock on the date cells of the examples. The two timestamps of
  1 May 2024, with UTC offsets -0300 and +0000, parse; the text \<open>NaT\<close> parses to the
  not-a-time value; any other cell of the examples is a missing date. A column that holds
  both offsets parses to a column that is not datetime-like, so \<open>.dt\<close> raises; any other
  column gets its display dates, the missing value where there is no timestamp.
\<close>

definition fecha_ej :: "cell \<Rightarrow> bool" where
  "fecha_ej c =
     (c = Str ''2024-05-01 10:00:00 -0300'' \<or> c = Str ''2024-05-01 10:00:00 +0000'')"

definition fechas_ej :: "cell list \<Rightarrow> nat \<Rightarrow> cell" where
  "fechas_ej col i = (if i < length col \<and> fecha_ej (col ! i) then Str ''01/05/2024'' else NaN)"

definition entorno_ej :: entorno where
  "entorno_ej =
     \<lparr>to_datetime =
        (\<lambda>c. if fecha_ej c then Inr (Marca ''01-05-2024'')
             else if c = Str ''NaT'' then Inr NaT
             else Inl ValueError),
      fechas_columna =
        (\<lambda>col. if Str ''2024-05-01 10:00:00 -0300'' \<in> set col
                    \<and> Str ''2024-05-01 10:00:00 +0000'' \<in> set col
               then Inl AttributeError
               else Inr (fechas_ej col)),
      hoy = ''04-11-2026''\<rparr>"

text \<open>
  A line of an export for the examples: order number, financial status, postal code,
  shipping method, id field and note are given, the other columns are fixed.
\<close>

definition linea :: "string \<Rightarrow> cell \<Rightarrow> cell \<Rightarrow> cell \<Rightarrow> cell \<Rightarrow> cell \<Rightarrow> order_line" where
  "linea n fs cp metodo dni nota =
     \<lparr>Name = n,
      Created_at = Str ''2024-05-01 10:00:00 -0300'',
      Shipping_Name = Str ''Ana Perez'',
      Lineitem_quantity = Num ''1'',
      Lineitem_name = Str ''Auriculares'',
      Total = Num ''4500.0'',
      Shipping_Province_Name = Str ''Buenos Aires'',
      Shipping_Street = Str ''Av. Rivadavia 100'',
      Shipping_Address2 = NaN,
      Shipping_City = Str ''Buenos Aires'',
      Shipping_Zip = cp,
      Shipping_Phone = Num ''1144445555.0'',
      Email = Str ''ana@example.com'',
      Lineitem_sku = Str ''AUR-1'',
      Financial_Status = fs,
      Shipping_Method = metodo,
      Shipping_Company = dni,
      Notes = nota\<rparr>"

text \<open>A working table of two orders, the second with two lines, for the examples.\<close>

definition ej_unificar :: "status_row list" where
  "ej_unificar =
     [\<lparr>Name = ''#1002'', Status = ''CABA''\<rparr>,
      \<lparr>Name = ''#1001'', Status = ''VENCIDO''\<rparr>,
      \<lparr>Name = ''#1002'', Status = []\<rparr>]"

text \<open>Tables for the examples.\<close>

definition ej_notas :: "order_line list" where
  "ej_notas =
     [linea ''#1001'' (Str ''paid'') (Str ''C1425'') (Str envio_prioritario) (Str ''12A34'')
        (Str '' dejar en porteria '')]"

definition ej_caba :: "order_line list" where
  "ej_caba =
     [linea ''#1001'' (Str ''paid'') (Str ''C1425'') (Str ''Correo Argentino'') (Str ''12345678'') NaN,
      linea ''#1002'' (Str ''paid'') (Str ''C1425'') (Str envio_prioritario) (Str ''12345678'')
        (Str '' '')]"

definition ej_pedido_mixto :: "order_line list" where
  "ej_pedido_mixto =
     [linea ''#1001'' (Str ''paid'') (Str ''C1425'') (Str ''Correo Argentino'') (Str ''12345678'') NaN,
      linea ''#1001'' (Str ''expired'') (Str ''C1425'') (Str ''Correo Argentino'') (Str ''12345678'') NaN,
      linea ''#1001'' NaN NaN NaN NaN NaN]"

definition ej_pedido_vencido :: "order_line list" where
  "ej_pedido_vencido =
     [linea ''#1003'' (Str ''expired'') (Str ''C1425'') (Str envio_prioritario) (Str ''12A34'')
        (Str ''llamar antes''),
      linea ''#1003'' NaN NaN NaN NaN NaN]"

text \<open>A table of two orders, out of order, one with a dotted id field.\<close>

definition ej_dni_puntos :: "order_line list" where
  "ej_dni_puntos =
     [linea ''#1002'' (Str ''paid'') (Str ''5000'') (Str ''Correo Argentino'')
        (Str ''12.345.678'') NaN,
      linea ''#1001'' (Str ''pending'') (Str ''C1425'') (Str ''Correo Argentino'') NaN NaN]"

text \<open>A paid CABA line with the priority method whose note is a number.\<close>

definition ej_nota_numerica :: "order_line list" where
  "ej_nota_numerica =
     [linea ''#1001'' (Str ''paid'') (Str ''C1425'') (Str envio_prioritario) (Str ''12345678'')
        (Num ''1160.0'')]"



section \<open>The loops, line by line\<close>

lemma iter_status_compose:
  "iter_status f rows (iter_status g rows cs) = iter_status (\<lambda>row st. f row (g row st)) rows cs"
  by (induction g rows cs rule: iter_status.induct) simp_all

lemma iter_status_raising_compose:
  "iter_status_raising f rows (iter_status g rows cs) =
   iter_status_raising (\<lambda>row st. f row (g row st)) rows cs"
  by (induction g rows cs rule: iter_status.induct) (simp_all split: sum.splits)

lemma iter_status_raising_Inr:
  "iter_status_raising f rows cs = Inr cl \<Longrightarrow>
     length cl = length cs \<and>
     (\<forall>i<length cs. i < length rows \<longrightarrow>
         (\<exists>s. f (rows ! i) (Status (cs ! i)) = Inr s \<and> cl ! i = (cs ! i)\<lparr>Status := s\<rparr>))"
proof (induction f rows cs arbitrary: cl rule: iter_status_raising.induct)
  case (1 f row rows c cs)
  from "1.prems" obtain s cs' where s: "f row (Status c) = Inr s"
    and cs': "iter_status_raising f rows cs = Inr cs'" and cl: "cl = c\<lparr>Status := s\<rparr> # cs'"
    by (auto split: sum.splits)
  from "1.IH"[OF s cs'] show ?case using s cl
    by (auto simp: nth_Cons split: nat.splits)
qed simp_all

lemma iter_status_raising_total:
  "length rows = length cs \<Longrightarrow> (\<forall>i<length cs. \<exists>s. f (rows ! i) (Status (cs ! i)) = Inr s) \<Longrightarrow>
   \<exists>cl. iter_status_raising f rows cs = Inr cl"
proof (induction f rows cs rule: iter_status_raising.induct)
  case (1 f row rows c cs)
  from "1.prems" obtain s where s: "f row (Status c) = Inr s" by fastforce
  have "\<forall>i<length cs. \<exists>s. f (rows ! i) (Status (cs ! i)) = Inr s"
    using "1.prems"(2) by fastforce
  with "1.IH"[OF s] "1.prems"(1) obtain cl where "iter_status_raising f rows cs = Inr cl" by auto
  with s show ?case by simp
qed simp_all

lemma iter_status_raising_Inl:
  "iter_status_raising f rows cs = Inl e \<Longrightarrow>
   \<exists>i. i < length cs \<and> i < length rows \<and> f (rows ! i) (Status (cs ! i)) = Inl e"
proof (induction f rows cs rule: iter_status_raising.induct)
  case (1 f row rows c cs)
  show ?case
  proof (cases "f row (Status c)")
    case (Inl a)
    with "1.prems" have "a = e" by simp
    with Inl show ?thesis by (intro exI[of _ 0]) simp
  next
    case (Inr s)
    with "1.prems" have "iter_status_raising f rows cs = Inl e" by (auto split: sum.splits)
    from "1.IH"[OF Inr this] obtain i where "i < length cs" "i < length rows"
      "f (rows ! i) (Status (cs ! i)) = Inl e" by blast
    then show ?thesis by (intro exI[of _ "Suc i"]) simp
  qed
qed simp_all

section \<open>Grouping is a stable sort by order number\<close>

lemma apply_groups_assign_status:
  "[] \<notin> set gs \<Longrightarrow>
   apply_groups assign_status gs =
     Inr (concat (map (\<lambda>g. map (\<lambda>r. r\<lparr>Status := Status (hd g)\<rparr>) g) gs))"
proof (induction gs)
  case (Cons g gs)
  then obtain x xs where "g = x # xs" by (cases g) auto
  with Cons show ?case by simp
qed simp

lemma groupby_Name_nonempty: "[] \<notin> set (groupby_Name df)"
  by (auto simp: groupby_Name_def empty_filter_conv)

lemma groups_mset:
  "distinct ks \<Longrightarrow>
   mset (concat (map (\<lambda>k. filter (\<lambda>r. f r = k) xs) ks)) = mset (filter (\<lambda>r. f r \<in> set ks) xs)"
proof (induction ks)
  case (Cons k ks)
  have "mset (filter (\<lambda>r. f r = k) xs) + mset (filter (\<lambda>r. f r \<in> set ks) xs)
      = mset (filter (\<lambda>r. f r = k \<or> f r \<in> set ks) xs)"
    using Cons.prems by (induction xs) auto
  with Cons show ?case by simp
qed simp

lemma groups_filter:
  "distinct ks \<Longrightarrow>
   filter (\<lambda>x. f x = k0) (concat (map (\<lambda>k. filter (\<lambda>r. f r = k) xs) ks)) =
     (if k0 \<in> set ks then filter (\<lambda>x. f x = k0) xs else [])"
proof (induction ks)
  case (Cons k ks)
  have a: "filter (\<lambda>x. f x = k0) (filter (\<lambda>r. f r = k) xs) = (if k = k0 then filter (\<lambda>x. f x = k0) xs else [])"
    by (induction xs) auto
  from Cons a show ?case by auto
qed simp

lemma groups_sorted:
  "sorted ks \<Longrightarrow> sorted (map f (concat (map (\<lambda>k. filter (\<lambda>r. f r = k) xs) ks)))"
proof (induction ks)
  case (Cons k ks)
  have "map f (filter (\<lambda>r. f r = k) xs) = replicate (length (filter (\<lambda>r. f r = k) xs)) k"
    by (induction xs) auto
  then have "sorted (map f (filter (\<lambda>r. f r = k) xs))"
    by (simp add: sorted_replicate)
  with Cons show ?case by (auto simp: sorted_append)
qed simp

lemma groups_sort_key:
  fixes f :: "'a \<Rightarrow> 'k::linorder"
  shows "concat (map (\<lambda>k. filter (\<lambda>r. f r = k) xs) (sort (remdups (map f xs)))) = sort_key f xs"
proof -
  let ?ks = "sort (remdups (map f xs))"
  let ?ys = "concat (map (\<lambda>k. filter (\<lambda>r. f r = k) xs) ?ks)"
  have d: "distinct ?ks" by simp
  have s: "set ?ks = f ` set xs" by simp
  have m: "mset ?ys = mset xs"
    using groups_mset[OF d, of f xs] by (simp add: s)
  have fl: "\<And>k. k \<in> set ?ys \<Longrightarrow> filter (\<lambda>x. f k = f x) ?ys = filter (\<lambda>x. f k = f x) xs"
  proof -
    fix k assume "k \<in> set ?ys"
    then have "k \<in> set xs" using m by (metis set_mset_mset)
    then have "f k \<in> set ?ks" by simp
    then have "filter (\<lambda>x. f x = f k) ?ys = filter (\<lambda>x. f x = f k) xs"
      using groups_filter[OF d, of f "f k" xs] by simp
    then show "filter (\<lambda>x. f k = f x) ?ys = filter (\<lambda>x. f k = f x) xs"
      by (simp add: eq_commute)
  qed
  have so: "sorted (map f ?ys)" by (rule groups_sorted) simp
  show ?thesis using properties_for_sort_key[OF m fl so] by simp
qed

lemma find_filter_hd:
  "filter P xs \<noteq> [] \<Longrightarrow> find P xs = Some (hd (filter P xs))"
  by (induction xs) auto

lemma unificar_status_sort_key:
  "unificar_status df =
     Inr (map (\<lambda>r. r\<lparr>Status := Status (the (find (\<lambda>x. Name x = Name r) df))\<rparr>) (sort_key Name df))"
proof -
  let ?ks = "sort (remdups (map Name df))"
  let ?h = "\<lambda>r. r\<lparr>Status := Status (the (find (\<lambda>x. Name x = Name r) df))\<rparr>"
  have "unificar_status df =
      Inr (concat (map (\<lambda>g. map (\<lambda>r. r\<lparr>Status := Status (hd g)\<rparr>) g) (groupby_Name df)))"
    unfolding unificar_status_def
    by (rule apply_groups_assign_status) (rule groupby_Name_nonempty)
  also have "concat (map (\<lambda>g. map (\<lambda>r. r\<lparr>Status := Status (hd g)\<rparr>) g) (groupby_Name df))
      = concat (map (\<lambda>k. map ?h (filter (\<lambda>r. Name r = k) df)) ?ks)"
  proof -
    have A: "\<And>k. k \<in> set ?ks \<Longrightarrow>
        map (\<lambda>r. r\<lparr>Status := Status (hd (filter (\<lambda>r. Name r = k) df))\<rparr>) (filter (\<lambda>r. Name r = k) df)
        = map ?h (filter (\<lambda>r. Name r = k) df)"
    proof -
      fix k assume "k \<in> set ?ks"
      then have ne: "filter (\<lambda>r. Name r = k) df \<noteq> []" by (auto simp: filter_empty_conv)
      show "map (\<lambda>r. r\<lparr>Status := Status (hd (filter (\<lambda>r. Name r = k) df))\<rparr>) (filter (\<lambda>r. Name r = k) df)
        = map ?h (filter (\<lambda>r. Name r = k) df)"
        using find_filter_hd[OF ne] by (auto intro!: map_cong)
    qed
    have B: "map (\<lambda>k. map (\<lambda>r. r\<lparr>Status := Status (hd (filter (\<lambda>r. Name r = k) df))\<rparr>)
                   (filter (\<lambda>r. Name r = k) df)) ?ks
        = map (\<lambda>k. map ?h (filter (\<lambda>r. Name r = k) df)) ?ks"
      by (rule map_cong[OF refl], rule A)
    have C: "map (\<lambda>g. map (\<lambda>r. r\<lparr>Status := Status (hd g)\<rparr>) g) (groupby_Name df)
        = map (\<lambda>k. map (\<lambda>r. r\<lparr>Status := Status (hd (filter (\<lambda>r. Name r = k) df))\<rparr>)
                   (filter (\<lambda>r. Name r = k) df)) ?ks"
      by (simp add: groupby_Name_def comp_def)
    show ?thesis by (simp only: C B)
  qed
  also have "\<dots> = map ?h (concat (map (\<lambda>k. filter (\<lambda>r. Name r = k) df) ?ks))"
    by (simp add: map_concat comp_def)
  also have "\<dots> = map ?h (sort_key Name df)"
    by (simp only: groups_sort_key)
  finally show ?thesis .
qed

section \<open>Classification of a table\<close>

lemma fa_clasificar_eq: "fa_clasificar rows cs = iter_status_raising fa_status_fila rows cs"
  unfolding fa_clasificar_def
  by (simp add: iter_status_compose iter_status_raising_compose fa_status_fila_def[abs_def])

lemma fan_clasificar_eq: "fan_clasificar rows cs = iter_status_raising fan_status_fila rows cs"
  unfolding fan_clasificar_def
  by (simp add: iter_status_compose iter_status_raising_compose fan_status_fila_def[abs_def])

lemma fan_bucle1_eq: "fan_bucle1 row st = fa_bucle1 row st"
  unfolding fan_bucle1_def fa_bucle1_def by (rule refl)

lemma fan_bucle2_eq: "fan_bucle2 row st = fa_bucle2 row st"
  unfolding fan_bucle2_def fa_bucle2_def by (rule refl)

lemma fan_bucle3_eq: "fan_bucle3 row st = fa_bucle3 row st"
  unfolding fan_bucle3_def fa_bucle3_def by (rule refl)

lemma fan_bucle4_eq: "fan_bucle4 row st = fa_bucle4 row st"
  unfolding fan_bucle4_def fa_bucle4_def fan_tierra_def fa_tierra_def by (rule refl)

lemma fan_status_fila_eq: "fan_status_fila row st = fa_status_fila row st"
  unfolding fan_status_fila_def fa_status_fila_def
  by (simp only: fan_bucle1_eq fan_bucle2_eq fan_bucle3_eq fan_bucle4_eq)

lemma fa_status_fila_legible:
  "nota_legible row \<Longrightarrow> \<exists>s. fa_status_fila row st = Inr s"
  by (cases "Notes row") (auto simp: nota_legible_def fa_status_fila_def fa_bucle4_def)

lemma fa_status_fila_ilegible:
  "\<not> nota_legible row \<Longrightarrow> fa_status_fila row st = Inl AttributeError"
  by (cases "Notes row") (auto simp: nota_legible_def fa_status_fila_def fa_bucle4_def)

lemma nota_legible_fa_limpiar_dni [simp]: "nota_legible (fa_limpiar_dni row) = nota_legible row"
  by (simp add: nota_legible_def fa_limpiar_dni_def)

lemma nota_legible_fan_limpiar [simp]: "nota_legible (fan_limpiar row) = nota_legible row"
  by (simp add: nota_legible_def fan_limpiar_def)

lemma fa_status_fila_cases:
  "(\<exists>s. fa_status_fila row st = Inr s) \<or> fa_status_fila row st = Inl AttributeError"
  using fa_status_fila_legible[of row st] fa_status_fila_ilegible[of row st] by blast

section \<open>Classification of a line\<close>

lemma fa_status_fila_notas:
  assumes "Financial_Status row = Str ''paid''" "Notes row = Str n" "strip n \<noteq> []"
  shows "fa_status_fila row st = Inr ''REVISAR NOTAS EN SHOPIFY''"
  using assms by (simp add: fa_status_fila_def fa_bucle4_def eq_str_def)

lemma fa_status_fila_caba:
  assumes "Financial_Status row = Str ''paid''"
    and "Notes row = NaN \<or> (\<exists>n. Notes row = Str n \<and> strip n = [])"
    and "Shipping_Province_Name row \<noteq> Str ''Tierra del Fuego''"
    and "startswith_any (py_str (Shipping_Zip row)) caba_prefixes"
  shows "fa_status_fila row st =
     Inr (if Shipping_Method row = Str envio_prioritario then ''CABA PRIORITARIO'' else ''CABA'')"
  using assms
  by (auto simp: fa_status_fila_def fa_bucle4_def fa_bucle3_def fa_bucle2_def fa_tierra_def eq_str_def)

lemma fa_status_fila_no_paid:
  assumes "Financial_Status row \<noteq> Str ''paid''"
  shows "fa_status_fila row st = Inr (fa_bucle1 row st)"
  using assms
  by (simp add: fa_status_fila_def fa_bucle4_def fa_bucle3_def fa_bucle2_def fa_tierra_def eq_str_def)

lemma fa_bucle1_fijo:
  "Financial_Status row = Str ''expired'' \<Longrightarrow> fa_bucle1 row st = ''VENCIDO''"
  "Financial_Status row = Str ''refunded'' \<Longrightarrow> fa_bucle1 row st = ''REEMBOLSADO''"
  "Financial_Status row = Str ''pending'' \<Longrightarrow> fa_bucle1 row st = ''FALTA PAGAR''"
  "Financial_Status row \<notin> {Str ''paid'', Str ''expired'', Str ''refunded'', Str ''pending''}
     \<Longrightarrow> fa_bucle1 row st = st"
  by (simp_all add: fa_bucle1_def eq_str_def)

section \<open>One status per order: the first line decides\<close>

lemma primera_linea_mem:
  "r \<in> set df \<Longrightarrow> \<exists>f. primera_linea df (Name r) = Some f"
  unfolding primera_linea_def by (cases "find (\<lambda>x. Name x = Name r) df") (auto simp: find_None_iff)

lemma unificar_status_caracterizada:
  "\<exists>u. unificar_status df = Inr u \<and> length u = length df \<and>
        mset (map Name u) = mset (map Name df) \<and>
        (\<forall>r\<in>set u. \<exists>f. primera_linea df (Name r) = Some f \<and> Status r = Status f)"
proof -
  let ?h = "\<lambda>r. r\<lparr>Status := Status (the (find (\<lambda>x. Name x = Name r) df))\<rparr>"
  let ?u = "map ?h (sort_key Name df)"
  have u: "unificar_status df = Inr ?u" by (rule unificar_status_sort_key)
  have n: "map Name ?u = map Name (sort_key Name df)" by simp
  have m: "mset (map Name ?u) = mset (map Name df)"
    unfolding n by simp
  have f: "\<forall>r\<in>set ?u. \<exists>f. primera_linea df (Name r) = Some f \<and> Status r = Status f"
  proof
    fix r assume "r \<in> set ?u"
    then obtain r0 where r0: "r0 \<in> set df" and r: "r = ?h r0" by auto
    from primera_linea_mem[OF r0] obtain f where f: "primera_linea df (Name r0) = Some f" ..
    then have "Status r = Status f" using r by (simp add: primera_linea_def)
    moreover have "Name r = Name r0" using r by simp
    ultimately show "\<exists>f. primera_linea df (Name r) = Some f \<and> Status r = Status f"
      using f by simp
  qed
  have l: "length ?u = length df" by simp
  show ?thesis
    by (intro exI[of _ ?u] conjI) (fact u, fact l, fact m, fact f)
qed


text \<open>
  C1. For every working table the consolidation returns; it keeps the number of lines and
  the order numbers, and every line of the result carries the status that the first line
  of its order, in the row order of the table being grouped, held before; so all lines
  of an order carry one status.
\<close>

theorem unificar_status_primera_linea:
  "\<exists>u. unificar_status df = Inr u \<and> length u = length df \<and>
        mset (map Name u) = mset (map Name df) \<and>
        (\<forall>r\<in>set u. \<exists>f. primera_linea df (Name r) = Some f \<and> Status r = Status f) \<and>
        (\<forall>r\<in>set u. \<forall>r'\<in>set u. Name r = Name r' \<longrightarrow> Status r = Status r')"
proof -
  from unificar_status_caracterizada[of df] obtain u where
    u: "unificar_status df = Inr u" "length u = length df"
      "mset (map Name u) = mset (map Name df)"
    and f: "\<forall>r\<in>set u. \<exists>f. primera_linea df (Name r) = Some f \<and> Status r = Status f"
    by blast
  have "\<forall>r\<in>set u. \<forall>r'\<in>set u. Name r = Name r' \<longrightarrow> Status r = Status r'"
  proof (intro ballI impI)
    fix r r' assume r: "r \<in> set u" "r' \<in> set u" and n: "Name r = Name r'"
    from f r(1) obtain a where a: "primera_linea df (Name r) = Some a" "Status r = Status a"
      by blast
    from f r(2) obtain b where b: "primera_linea df (Name r') = Some b" "Status r' = Status b"
      by blast
    from a(1) b(1) n have "a = b" by simp
    with a(2) b(2) show "Status r = Status r'" by simp
  qed
  with u f show ?thesis by blast
qed

theorem unificar_status_primera_linea_witness:
  "unificar_status ej_unificar =
     Inr [\<lparr>Name = ''#1001'', Status = ''VENCIDO''\<rparr>,
          \<lparr>Name = ''#1002'', Status = ''CABA''\<rparr>,
          \<lparr>Name = ''#1002'', Status = ''CABA''\<rparr>]
   \<and> primera_linea ej_unificar ''#1002'' = Some \<lparr>Name = ''#1002'', Status = ''CABA''\<rparr>
   \<and> primera_linea ej_unificar ''#1001'' = Some \<lparr>Name = ''#1001'', Status = ''VENCIDO''\<rparr>"
proof -
  have e: "unificar_status ej_unificar =
     Inr [\<lparr>Name = ''#1001'', Status = ''VENCIDO''\<rparr>,
          \<lparr>Name = ''#1002'', Status = ''CABA''\<rparr>,
          \<lparr>Name = ''#1002'', Status = ''CABA''\<rparr>]"
    by code_simp
  have p: "primera_linea ej_unificar ''#1002'' = Some \<lparr>Name = ''#1002'', Status = ''CABA''\<rparr>"
    by code_simp
  have q: "primera_linea ej_unificar ''#1001'' = Some \<lparr>Name = ''#1001'', Status = ''VENCIDO''\<rparr>"
    by code_simp
  from unificar_status_primera_linea[of ej_unificar] e p q show ?thesis by simp
qed

section \<open>The cleaning of the source table\<close>

lemma fa_limpiar_dni_campos [simp]:
  "Name (fa_limpiar_dni r) = Name r"
  "Financial_Status (fa_limpiar_dni r) = Financial_Status r"
  "Notes (fa_limpiar_dni r) = Notes r"
  "Shipping_Zip (fa_limpiar_dni r) = Shipping_Zip r"
  "Shipping_Method (fa_limpiar_dni r) = Shipping_Method r"
  "Shipping_Province_Name (fa_limpiar_dni r) = Shipping_Province_Name r"
  by (simp_all add: fa_limpiar_dni_def)

lemma fan_limpiar_campos [simp]:
  "Name (fan_limpiar r) = Name r"
  "Financial_Status (fan_limpiar r) = Financial_Status r"
  "Notes (fan_limpiar r) = Notes r"
  "Shipping_Zip (fan_limpiar r) = Shipping_Zip r"
  "Shipping_Method (fan_limpiar r) = Shipping_Method r"
  "Shipping_Province_Name (fan_limpiar r) = Shipping_Province_Name r"
  by (simp_all add: fan_limpiar_def)

lemma Shipping_Company_limpiar:
  "Shipping_Company (fa_limpiar_dni r) =
     Str (replace_char CHR '' '' (replace_char CHR ''.'' (py_str (Shipping_Company r))))"
  "Shipping_Company (fan_limpiar r) =
     Str (replace_char CHR '' '' (replace_char CHR ''.'' (py_str (Shipping_Company r))))"
  by (simp_all add: fa_limpiar_dni_def fan_limpiar_def astype_str_def)

section \<open>The four loops on a table\<close>

lemma clasificar_legible:
  assumes "list_all nota_legible rows" and "length cs = length rows"
    and "\<forall>i<length rows. Status (cs ! i) = []"
  shows "\<exists>cl. iter_status_raising fa_status_fila rows cs = Inr cl \<and> length cl = length rows \<and>
           (\<forall>i<length rows. Name (cl ! i) = Name (cs ! i) \<and>
                sin_status (cl ! i) = sin_status (cs ! i) \<and>
                fa_status_fila (rows ! i) [] = Inr (Status (cl ! i)))"
proof -
  have "\<forall>i<length cs. \<exists>s. fa_status_fila (rows ! i) (Status (cs ! i)) = Inr s"
  proof (intro allI impI)
    fix i assume "i < length cs"
    then have "nota_legible (rows ! i)" using assms(1,2) by (simp add: list_all_length)
    then show "\<exists>s. fa_status_fila (rows ! i) (Status (cs ! i)) = Inr s"
      by (rule fa_status_fila_legible)
  qed
  from iter_status_raising_total[OF assms(2)[symmetric] this] obtain cl where
    cl: "iter_status_raising fa_status_fila rows cs = Inr cl" ..
  from iter_status_raising_Inr[OF cl] have l: "length cl = length cs"
    and n: "\<forall>i<length cs. i < length rows \<longrightarrow>
         (\<exists>s. fa_status_fila (rows ! i) (Status (cs ! i)) = Inr s \<and> cl ! i = (cs ! i)\<lparr>Status := s\<rparr>)"
    by blast+
  have "\<forall>i<length rows. Name (cl ! i) = Name (cs ! i) \<and>
                sin_status (cl ! i) = sin_status (cs ! i) \<and>
                fa_status_fila (rows ! i) [] = Inr (Status (cl ! i))"
  proof (intro allI impI)
    fix i assume i: "i < length rows"
    with n assms(2) obtain s where s: "fa_status_fila (rows ! i) (Status (cs ! i)) = Inr s"
      "cl ! i = (cs ! i)\<lparr>Status := s\<rparr>" by auto
    from assms(3) i have "Status (cs ! i) = []" by simp
    with s show "Name (cl ! i) = Name (cs ! i) \<and>
                sin_status (cl ! i) = sin_status (cs ! i) \<and>
                fa_status_fila (rows ! i) [] = Inr (Status (cl ! i))"
      by (simp add: sin_status_def)
  qed
  with cl l assms(2) show ?thesis by simp
qed

lemma clasificar_ilegible:
  assumes "\<not> list_all nota_legible rows" and "length cs = length rows"
  shows "iter_status_raising fa_status_fila rows cs = Inl AttributeError"
proof (cases "iter_status_raising fa_status_fila rows cs")
  case (Inl e)
  from iter_status_raising_Inl[OF Inl] obtain i where
    "fa_status_fila (rows ! i) (Status (cs ! i)) = Inl e" by blast
  with fa_status_fila_cases[of "rows ! i" "Status (cs ! i)"] have "e = AttributeError" by auto
  with Inl show ?thesis by simp
next
  case (Inr cl)
  from assms(1) obtain j where j: "j < length rows" "\<not> nota_legible (rows ! j)"
    by (auto simp: list_all_length)
  from iter_status_raising_Inr[OF Inr] j(1) assms(2)
  obtain s where "fa_status_fila (rows ! j) (Status (cs ! j)) = Inr s" by auto
  with fa_status_fila_ilegible[OF j(2), of "Status (cs ! j)"] show ?thesis by simp
qed

lemma list_all_nota_legible_fa_limpiar_dni [simp]:
  "list_all nota_legible (map fa_limpiar_dni t) = list_all nota_legible t"
  by (simp add: list_all_iff)

lemma list_all_nota_legible_fan_limpiar [simp]:
  "list_all nota_legible (map fan_limpiar t) = list_all nota_legible t"
  by (simp add: list_all_iff)

section \<open>The working copies\<close>

lemma length_fa_columnas_a_copiar [simp]: "length (fa_columnas_a_copiar fechas t) = length t"
  by (simp add: fa_columnas_a_copiar_def)

lemma nth_fa_columnas_a_copiar:
  "i < length t \<Longrightarrow> fa_columnas_a_copiar fechas t ! i = fa_copiar (fechas i) (t ! i)"
  by (simp add: fa_columnas_a_copiar_def)

lemma Status_fa_copiar [simp]: "Status (fa_copiar fecha row) = []"
  by (simp add: fa_copiar_def)

lemma Name_fa_copiar [simp]: "Name (fa_copiar fecha row) = Name row"
  by (simp add: fa_copiar_def)

lemma Status_fan_copiar [simp]: "Status (fan_copiar row) = []"
  by (simp add: fan_copiar_def)

lemma Name_fan_copiar [simp]: "Name (fan_copiar row) = Name row"
  by (simp add: fan_copiar_def)

lemma fa_clasificar_nth:
  assumes "list_all nota_legible t"
  shows "\<exists>cl. fa_clasificar (map fa_limpiar_dni t) (fa_columnas_a_copiar fechas t) = Inr cl \<and>
           length cl = length t \<and>
           (\<forall>i<length t. Name (cl ! i) = Name (t ! i) \<and>
                fa_status_fila (fa_limpiar_dni (t ! i)) [] = Inr (Status (cl ! i)))"
proof -
  have a: "list_all nota_legible (map fa_limpiar_dni t)" using assms by simp
  have b: "length (fa_columnas_a_copiar fechas t) = length (map fa_limpiar_dni t)" by simp
  have c: "\<forall>i<length (map fa_limpiar_dni t). Status (fa_columnas_a_copiar fechas t ! i) = []"
    by (simp add: nth_fa_columnas_a_copiar)
  from clasificar_legible[OF a b c] obtain cl :: "arg_row list" where
    cl: "iter_status_raising fa_status_fila (map fa_limpiar_dni t) (fa_columnas_a_copiar fechas t) = Inr cl"
      "length cl = length (map fa_limpiar_dni t)"
    and n: "\<forall>i<length (map fa_limpiar_dni t). Name (cl ! i) = Name (fa_columnas_a_copiar fechas t ! i) \<and>
                sin_status (cl ! i) = sin_status (fa_columnas_a_copiar fechas t ! i) \<and>
                fa_status_fila (map fa_limpiar_dni t ! i) [] = Inr (Status (cl ! i))"
    by blast
  from n have "\<forall>i<length t. Name (cl ! i) = Name (t ! i) \<and>
                fa_status_fila (fa_limpiar_dni (t ! i)) [] = Inr (Status (cl ! i))"
    by (simp add: nth_fa_columnas_a_copiar)
  with cl show ?thesis by (simp add: fa_clasificar_eq)
qed

lemma fan_clasificar_nth:
  assumes "list_all nota_legible t"
  shows "\<exists>cl. fan_clasificar (map fan_limpiar t) (map fan_copiar t) = Inr cl \<and>
           length cl = length t \<and>
           (\<forall>i<length t. Name (cl ! i) = Name (t ! i) \<and>
                fa_status_fila (fan_limpiar (t ! i)) [] = Inr (Status (cl ! i)))"
proof -
  have a: "list_all nota_legible (map fan_limpiar t)" using assms by simp
  have b: "length (map fan_copiar t) = length (map fan_limpiar t)" by simp
  have c: "\<forall>i<length (map fan_limpiar t). Status (map fan_copiar t ! i) = []" by simp
  from clasificar_legible[OF a b c] obtain cl :: "and_row list" where
    cl: "iter_status_raising fa_status_fila (map fan_limpiar t) (map fan_copiar t) = Inr cl"
      "length cl = length (map fan_limpiar t)"
    and n: "\<forall>i<length (map fan_limpiar t). Name (cl ! i) = Name (map fan_copiar t ! i) \<and>
                sin_status (cl ! i) = sin_status (map fan_copiar t ! i) \<and>
                fa_status_fila (map fan_limpiar t ! i) [] = Inr (Status (cl ! i))"
    by blast
  from n have "\<forall>i<length t. Name (cl ! i) = Name (t ! i) \<and>
                fa_status_fila (fan_limpiar (t ! i)) [] = Inr (Status (cl ! i))"
    by simp
  moreover have "fan_status_fila = fa_status_fila" by (intro ext) (rule fan_status_fila_eq)
  ultimately show ?thesis using cl by (simp add: fan_clasificar_eq)
qed

lemma fa_clasificar_raises:
  assumes "\<not> list_all nota_legible t"
  shows "fa_clasificar (map fa_limpiar_dni t) (fa_columnas_a_copiar fechas t) = Inl AttributeError"
  unfolding fa_clasificar_eq
  by (rule clasificar_ilegible) (simp_all add: assms)

lemma fan_clasificar_raises:
  assumes "\<not> list_all nota_legible t"
  shows "fan_clasificar (map fan_limpiar t) (map fan_copiar t) = Inl AttributeError"
proof -
  have "fan_status_fila = fa_status_fila" by (intro ext) (rule fan_status_fila_eq)
  then show ?thesis unfolding fan_clasificar_eq
    by (simp add: clasificar_ilegible assms)
qed

section \<open>When a run returns\<close>

lemma primera_linea_transfer:
  assumes "primera_linea cl k = Some c" and "length cl = length t"
    and "\<forall>i<length t. Name (cl ! i) = Name (t ! i) \<and> Q (t ! i) (cl ! i)"
  shows "\<exists>f. primera_linea t k = Some f \<and> Q f c"
proof -
  from assms(1) obtain i where i: "i < length cl" "Name (cl ! i) = k" "c = cl ! i"
    "\<forall>j<i. Name (cl ! j) \<noteq> k"
    unfolding primera_linea_def find_Some_iff by blast
  have "primera_linea t k = Some (t ! i)"
    unfolding primera_linea_def find_Some_iff
  proof (intro exI[of _ i] conjI allI impI)
    show "i < length t" using i(1) assms(2) by simp
    show "Name (t ! i) = k" using i(1,2) assms(2,3) by simp
    show "t ! i = t ! i" ..
    fix j assume "j < i"
    then show "Name (t ! j) \<noteq> k" using i(1,4) assms(2,3) by simp
  qed
  moreover have "Q (t ! i) c" using i(1,3) assms(2,3) by simp
  ultimately show ?thesis by blast
qed

lemma Status_fa_arreglar_telefono [simp]: "Status (fa_arreglar_telefono r) = Status r"
  by (simp add: fa_arreglar_telefono_def)

lemma Name_fa_arreglar_telefono [simp]: "Name (fa_arreglar_telefono r) = Name r"
  by (simp add: fa_arreglar_telefono_def)

lemma Status_fan_valores_tecnicos [simp]: "Status (fan_valores_tecnicos r) = Status r"
  by (simp add: fan_valores_tecnicos_def)

lemma Name_fan_valores_tecnicos [simp]: "Name (fan_valores_tecnicos r) = Name r"
  by (simp add: fan_valores_tecnicos_def)

lemma Status_fan_arreglar_telefono [simp]: "Status (fan_arreglar_telefono r) = Status r"
  by (simp add: fan_arreglar_telefono_def)

lemma Name_fan_arreglar_telefono [simp]: "Name (fan_arreglar_telefono r) = Name r"
  by (simp add: fan_arreglar_telefono_def)

lemma fa_procesar_archivo_devuelve:
  assumes "fecha_archivo env t = Inr fecha"
    and "fechas_columna env (map Created_at t) = Inr fechas"
    and "list_all nota_legible t"
  shows "\<exists>(cl::arg_row list) u.
           fa_clasificar (map fa_limpiar_dni t) (fa_columnas_a_copiar fechas t) = Inr cl \<and>
           length cl = length t \<and>
           (\<forall>i<length t. Name (cl ! i) = Name (t ! i) \<and>
                fa_status_fila (fa_limpiar_dni (t ! i)) [] = Inr (Status (cl ! i))) \<and>
           unificar_status cl = Inr u \<and>
           fa_procesar_archivo env t =
             Inr (map fa_limpiar_dni t, map fa_arreglar_telefono u, fecha,
                  calcular_estadisticas (map fa_arreglar_telefono u))"
proof -
  from fa_clasificar_nth[OF assms(3), of fechas] obtain cl :: "arg_row list" where
    cl: "fa_clasificar (map fa_limpiar_dni t) (fa_columnas_a_copiar fechas t) = Inr cl"
    and l: "length cl = length t"
    and n: "\<forall>i<length t. Name (cl ! i) = Name (t ! i) \<and>
                fa_status_fila (fa_limpiar_dni (t ! i)) [] = Inr (Status (cl ! i))" by blast
  from unificar_status_caracterizada[of cl] obtain u where u: "unificar_status cl = Inr u" by blast
  have "fa_procesar_archivo env t =
             Inr (map fa_limpiar_dni t, map fa_arreglar_telefono u, fecha,
                  calcular_estadisticas (map fa_arreglar_telefono u))"
    by (simp add: fa_procesar_archivo_def Let_def assms(1,2) cl u)
  with cl l n u show ?thesis by blast
qed

lemma fa_procesar_archivo_fecha_raises:
  "fecha_archivo env t = Inl e \<Longrightarrow> fa_procesar_archivo env t = Inl e"
  by (simp add: fa_procesar_archivo_def)

lemma fa_procesar_archivo_columna_raises:
  "fecha_archivo env t = Inr fecha \<Longrightarrow> fechas_columna env (map Created_at t) = Inl e \<Longrightarrow>
   fa_procesar_archivo env t = Inl e"
  by (simp add: fa_procesar_archivo_def)

lemma fa_procesar_archivo_nota_raises:
  "fecha_archivo env t = Inr fecha \<Longrightarrow> fechas_columna env (map Created_at t) = Inr fechas \<Longrightarrow>
   \<not> list_all nota_legible t \<Longrightarrow> fa_procesar_archivo env t = Inl AttributeError"
  by (simp add: fa_procesar_archivo_def Let_def fa_clasificar_raises)

lemma fa_procesar_archivo_Inr:
  assumes "fa_procesar_archivo env t = Inr (t', final, fecha, e)"
  shows "fecha_archivo env t = Inr fecha \<and>
         (\<exists>fechas. fechas_columna env (map Created_at t) = Inr fechas) \<and>
         list_all nota_legible t \<and> t' = map fa_limpiar_dni t"
proof -
  from assms obtain f0 where f0: "fecha_archivo env t = Inr f0"
    by (cases "fecha_archivo env t") (simp_all add: fa_procesar_archivo_def)
  from assms f0 obtain fechas where fs: "fechas_columna env (map Created_at t) = Inr fechas"
    by (cases "fechas_columna env (map Created_at t)") (simp_all add: fa_procesar_archivo_def)
  have leg: "list_all nota_legible t"
  proof (rule ccontr)
    assume "\<not> list_all nota_legible t"
    from fa_procesar_archivo_nota_raises[OF f0 fs this] assms show False by simp
  qed
  from fa_procesar_archivo_devuelve[OF f0 fs leg] assms
  have "f0 = fecha" "t' = map fa_limpiar_dni t" by auto
  with f0 fs leg show ?thesis by blast
qed

lemma fa_final_primera_linea:
  assumes "fecha_archivo env t = Inr fecha"
    and "fechas_columna env (map Created_at t) = Inr fechas"
    and "list_all nota_legible t"
  shows "\<exists>final e. fa_procesar_archivo env t = Inr (map fa_limpiar_dni t, final, fecha, e) \<and>
           length final = length t \<and>
           (\<forall>r\<in>set final. \<exists>f. primera_linea t (Name r) = Some f \<and>
                fa_status_fila (fa_limpiar_dni f) [] = Inr (Status r))"
proof -
  from fa_procesar_archivo_devuelve[OF assms] obtain cl :: "arg_row list" and u where
    l: "length cl = length t"
    and n: "\<forall>i<length t. Name (cl ! i) = Name (t ! i) \<and>
                fa_status_fila (fa_limpiar_dni (t ! i)) [] = Inr (Status (cl ! i))"
    and u: "unificar_status cl = Inr u"
    and p: "fa_procesar_archivo env t =
             Inr (map fa_limpiar_dni t, map fa_arreglar_telefono u, fecha,
                  calcular_estadisticas (map fa_arreglar_telefono u))" by blast
  from unificar_status_caracterizada[of cl] u have lu: "length u = length cl"
    and fu: "\<forall>r\<in>set u. \<exists>c. primera_linea cl (Name r) = Some c \<and> Status r = Status c"
    by auto
  have "\<forall>r\<in>set (map fa_arreglar_telefono u). \<exists>f. primera_linea t (Name r) = Some f \<and>
                fa_status_fila (fa_limpiar_dni f) [] = Inr (Status r)"
  proof
    fix r assume "r \<in> set (map fa_arreglar_telefono u)"
    then obtain r1 where r1: "r1 \<in> set u" "r = fa_arreglar_telefono r1" by auto
    from fu r1(1) obtain c where c: "primera_linea cl (Name r1) = Some c" "Status r1 = Status c"
      by blast
    from primera_linea_transfer[where Q="\<lambda>x c. fa_status_fila (fa_limpiar_dni x) [] = Inr (Status c)",
        OF c(1) l n]
    obtain f where "primera_linea t (Name r1) = Some f"
      "fa_status_fila (fa_limpiar_dni f) [] = Inr (Status c)" by blast
    then show "\<exists>f. primera_linea t (Name r) = Some f \<and>
                fa_status_fila (fa_limpiar_dni f) [] = Inr (Status r)"
      using r1(2) c(2) by simp
  qed
  moreover have "length (map fa_arreglar_telefono u) = length t" using lu l by simp
  ultimately show ?thesis using p by blast
qed

lemma fan_procesar_archivo_devuelve:
  assumes "fecha_archivo env t = Inr fecha" and "list_all nota_legible t"
  shows "\<exists>(cl::and_row list) u.
           length cl = length t \<and>
           (\<forall>i<length t. Name (cl ! i) = Name (t ! i) \<and>
                fa_status_fila (fan_limpiar (t ! i)) [] = Inr (Status (cl ! i))) \<and>
           unificar_status cl = Inr u \<and>
           fan_procesar_archivo env t =
             Inr (map fan_limpiar t, map fan_arreglar_telefono u, fecha)"
proof -
  from fan_clasificar_nth[OF assms(2)] obtain cl :: "and_row list" where
    cl: "fan_clasificar (map fan_limpiar t) (map fan_copiar t) = Inr cl"
    and l: "length cl = length t"
    and n: "\<forall>i<length t. Name (cl ! i) = Name (t ! i) \<and>
                fa_status_fila (fan_limpiar (t ! i)) [] = Inr (Status (cl ! i))" by blast
  let ?cl = "map fan_valores_tecnicos cl"
  from unificar_status_caracterizada[of ?cl] obtain u where u: "unificar_status ?cl = Inr u"
    by blast
  have 1: "length ?cl = length t" using l by simp
  have 2: "\<forall>i<length t. Name (?cl ! i) = Name (t ! i) \<and>
                fa_status_fila (fan_limpiar (t ! i)) [] = Inr (Status (?cl ! i))"
    using n l by simp
  have 3: "fan_procesar_archivo env t = Inr (map fan_limpiar t, map fan_arreglar_telefono u, fecha)"
    by (simp add: fan_procesar_archivo_def Let_def assms(1) cl u)
  from 1 2 u 3 show ?thesis by blast
qed

lemma fan_procesar_archivo_fecha_raises:
  "fecha_archivo env t = Inl e \<Longrightarrow> fan_procesar_archivo env t = Inl e"
  by (simp add: fan_procesar_archivo_def)

lemma fan_procesar_archivo_nota_raises:
  "fecha_archivo env t = Inr fecha \<Longrightarrow> \<not> list_all nota_legible t \<Longrightarrow>
   fan_procesar_archivo env t = Inl AttributeError"
  by (simp add: fan_procesar_archivo_def Let_def fan_clasificar_raises)

lemma fan_procesar_archivo_Inr:
  assumes "fan_procesar_archivo env t = Inr (t', final, fecha)"
  shows "fecha_archivo env t = Inr fecha \<and> list_all nota_legible t \<and> t' = map fan_limpiar t"
proof -
  from assms obtain f0 where f0: "fecha_archivo env t = Inr f0"
    by (cases "fecha_archivo env t") (simp_all add: fan_procesar_archivo_def)
  have leg: "list_all nota_legible t"
  proof (rule ccontr)
    assume "\<not> list_all nota_legible t"
    from fan_procesar_archivo_nota_raises[OF f0 this] assms show False by simp
  qed
  from fan_procesar_archivo_devuelve[OF f0 leg] assms
  have "f0 = fecha" "t' = map fan_limpiar t" by auto
  with f0 leg show ?thesis by blast
qed

section \<open>What the four loops leave on a line of a table\<close>

lemma notas_en_tabla_legible:
  assumes "list_all nota_legible t" and "i < length t"
    and "Financial_Status (t ! i) = Str ''paid''"
    and "Notes (t ! i) = Str n" and "strip n \<noteq> []"
  shows "(\<exists>cl. fa_clasificar (map fa_limpiar_dni t) (fa_columnas_a_copiar fechas t) = Inr cl \<and>
              length cl = length t \<and> Status (cl ! i) = ''REVISAR NOTAS EN SHOPIFY'')
       \<and> (\<exists>cl. fan_clasificar (map fan_limpiar t) (map fan_copiar t) = Inr cl \<and>
              length cl = length t \<and> Status (cl ! i) = ''REVISAR NOTAS EN SHOPIFY'')"
proof -
  have a: "fa_status_fila (fa_limpiar_dni (t ! i)) [] = Inr ''REVISAR NOTAS EN SHOPIFY''"
    using assms(3-5) by (intro fa_status_fila_notas[where n=n]) simp_all
  have b: "fa_status_fila (fan_limpiar (t ! i)) [] = Inr ''REVISAR NOTAS EN SHOPIFY''"
    using assms(3-5) by (intro fa_status_fila_notas[where n=n]) simp_all
  from fa_clasificar_nth[OF assms(1), of fechas] assms(2) a
  have 1: "\<exists>cl. fa_clasificar (map fa_limpiar_dni t) (fa_columnas_a_copiar fechas t) = Inr cl \<and>
              length cl = length t \<and> Status (cl ! i) = ''REVISAR NOTAS EN SHOPIFY''"
    by fastforce
  from fan_clasificar_nth[OF assms(1)] assms(2) b
  have 2: "\<exists>cl. fan_clasificar (map fan_limpiar t) (map fan_copiar t) = Inr cl \<and>
              length cl = length t \<and> Status (cl ! i) = ''REVISAR NOTAS EN SHOPIFY''"
    by fastforce
  from 1 2 show ?thesis by blast
qed

lemma bucle4_sobre_cualquier_status:
  assumes "Financial_Status row = Str ''paid''" and "Notes row = Str n" and "strip n \<noteq> []"
  shows "fa_bucle4 (fa_limpiar_dni row) st = Inr ''REVISAR NOTAS EN SHOPIFY'' \<and>
         fan_bucle4 (fan_limpiar row) st = Inr ''REVISAR NOTAS EN SHOPIFY''"
  using assms by (simp add: fa_bucle4_def fan_bucle4_def eq_str_def)

lemma caba_en_tabla_legible:
  assumes "list_all nota_legible t" and "i < length t"
    and "Financial_Status (t ! i) = Str ''paid''"
    and "Notes (t ! i) = NaN \<or> (\<exists>n. Notes (t ! i) = Str n \<and> strip n = [])"
    and "Shipping_Province_Name (t ! i) \<noteq> Str ''Tierra del Fuego''"
    and "startswith_any (py_str (Shipping_Zip (t ! i))) caba_prefixes"
  shows "(\<exists>cl. fa_clasificar (map fa_limpiar_dni t) (fa_columnas_a_copiar fechas t) = Inr cl \<and>
              length cl = length t \<and>
              Status (cl ! i) =
                (if Shipping_Method (t ! i) = Str envio_prioritario then ''CABA PRIORITARIO''
                 else ''CABA''))
       \<and> (\<exists>cl. fan_clasificar (map fan_limpiar t) (map fan_copiar t) = Inr cl \<and>
              length cl = length t \<and>
              Status (cl ! i) =
                (if Shipping_Method (t ! i) = Str envio_prioritario then ''CABA PRIORITARIO''
                 else ''CABA''))"
proof -
  let ?s = "if Shipping_Method (t ! i) = Str envio_prioritario then ''CABA PRIORITARIO'' else ''CABA''"
  have a: "fa_status_fila (fa_limpiar_dni (t ! i)) [] = Inr ?s"
    using fa_status_fila_caba[of "fa_limpiar_dni (t ! i)" "[]"] assms(3-6) by simp
  have b: "fa_status_fila (fan_limpiar (t ! i)) [] = Inr ?s"
    using fa_status_fila_caba[of "fan_limpiar (t ! i)" "[]"] assms(3-6) by simp
  from fa_clasificar_nth[OF assms(1), of fechas] obtain cl :: "arg_row list" where
    cl: "fa_clasificar (map fa_limpiar_dni t) (fa_columnas_a_copiar fechas t) = Inr cl"
      "length cl = length t"
    and n: "\<forall>i<length t. Name (cl ! i) = Name (t ! i) \<and>
                fa_status_fila (fa_limpiar_dni (t ! i)) [] = Inr (Status (cl ! i))" by blast
  from n assms(2) a have "Status (cl ! i) = ?s" by simp
  with cl have 1: "\<exists>cl. fa_clasificar (map fa_limpiar_dni t) (fa_columnas_a_copiar fechas t) = Inr cl \<and>
              length cl = length t \<and> Status (cl ! i) = ?s" by blast
  from fan_clasificar_nth[OF assms(1)] obtain cl2 :: "and_row list" where
    cl2: "fan_clasificar (map fan_limpiar t) (map fan_copiar t) = Inr cl2" "length cl2 = length t"
    and n2: "\<forall>i<length t. Name (cl2 ! i) = Name (t ! i) \<and>
                fa_status_fila (fan_limpiar (t ! i)) [] = Inr (Status (cl2 ! i))" by blast
  from n2 assms(2) b have "Status (cl2 ! i) = ?s" by simp
  with cl2 have 2: "\<exists>cl. fan_clasificar (map fan_limpiar t) (map fan_copiar t) = Inr cl \<and>
              length cl = length t \<and> Status (cl ! i) = ?s" by blast
  from 1 2 show ?thesis by (rule conjI)
qed

lemma ejemplo_notas:
  "fa_columna_status entorno_ej ej_notas = Inr [''REVISAR NOTAS EN SHOPIFY'']
   \<and> fan_columna_status entorno_ej ej_notas = Inr [''REVISAR NOTAS EN SHOPIFY'']"
  by code_simp

lemma ejemplo_caba:
  "fa_columna_status entorno_ej ej_caba = Inr [''CABA'', ''CABA PRIORITARIO'']
   \<and> fan_columna_status entorno_ej ej_caba = Inr [''CABA'', ''CABA PRIORITARIO'']"
  by code_simp

text \<open>
  C4. The claim: a paid line whose note is not null and not blank holds
  REVISAR NOTAS EN SHOPIFY after the four loops. It holds when the note is a string and no
  paid line of the table has a number as note. A paid line whose note is the number 1160.0
  (a notes column of digits only is read as numbers) has a note that is neither null nor
  blank; loop 4 calls \<open>note.strip()\<close> on it and raises, in both processors, so the four
  loops leave no status on the line and the run ends with AttributeError.
\<close>

theorem nota_numerica_sin_revisar:
  "Financial_Status (ej_nota_numerica ! 0) = Str ''paid''
   \<and> Notes (ej_nota_numerica ! 0) = Num ''1160.0''
   \<and> notnull (Notes (ej_nota_numerica ! 0))
   \<and> strip (py_str (Notes (ej_nota_numerica ! 0))) \<noteq> []
   \<and> fa_bucle4 (fa_limpiar_dni (ej_nota_numerica ! 0)) ''CABA PRIORITARIO'' = Inl AttributeError
   \<and> fan_bucle4 (fan_limpiar (ej_nota_numerica ! 0)) ''CABA PRIORITARIO'' = Inl AttributeError
   \<and> fa_clasificar (map fa_limpiar_dni ej_nota_numerica)
       (fa_columnas_a_copiar (fechas_ej (map Created_at ej_nota_numerica)) ej_nota_numerica)
     = Inl AttributeError
   \<and> fan_clasificar (map fan_limpiar ej_nota_numerica) (map fan_copiar ej_nota_numerica)
     = Inl AttributeError
   \<and> fa_columna_status entorno_ej ej_nota_numerica = Inl AttributeError
   \<and> fan_columna_status entorno_ej ej_nota_numerica = Inl AttributeError"
  by code_simp


section \<open>Lines that are not paid\<close>

lemma fa_status_fila_fijo:
  assumes "fa_status_fila (fa_limpiar_dni row) [] = Inr s"
  shows "(Financial_Status row = Str ''expired'' \<longrightarrow> s = ''VENCIDO'') \<and>
         (Financial_Status row = Str ''refunded'' \<longrightarrow> s = ''REEMBOLSADO'') \<and>
         (Financial_Status row = Str ''pending'' \<longrightarrow> s = ''FALTA PAGAR'') \<and>
         (Financial_Status row \<notin> {Str ''paid'', Str ''expired'', Str ''refunded'', Str ''pending''}
            \<longrightarrow> s = [])"
proof (cases "Financial_Status row = Str ''paid''")
  case True
  then show ?thesis by simp
next
  case False
  then have "Financial_Status (fa_limpiar_dni row) \<noteq> Str ''paid''" by simp
  from fa_status_fila_no_paid[OF this, of "[]"] assms
  have s: "s = fa_bucle1 (fa_limpiar_dni row) []" by simp
  show ?thesis unfolding s
    using fa_bucle1_fijo[of "fa_limpiar_dni row" "[]"] by simp
qed

text \<open>
  C6, as stated, fails after the consolidation: in an order whose first line is paid with
  a CABA postal code, a second line with financial status \<open>expired\<close> and a third with
  no financial status both end with CABA, the status of the first line.
\<close>

theorem pedido_mixto_no_fijo:
  "Financial_Status (ej_pedido_mixto ! 1) = Str ''expired''
   \<and> Financial_Status (ej_pedido_mixto ! 2) = NaN
   \<and> fa_columna_status entorno_ej ej_pedido_mixto = Inr [''CABA'', ''CABA'', ''CABA'']"
  by code_simp

text \<open>
  C6, amended. Take a table on which the two date steps of FiltroArgentina return (the
  date of the file and the display dates of the column) and in which no paid line has a
  number as note. Then the four loops return, and before the consolidation a line with
  financial status expired, refunded or pending holds VENCIDO, REEMBOLSADO or FALTA PAGAR,
  whatever its note, postal code and shipping method, and a line whose financial status
  is none of paid, expired, refunded, pending holds the empty status. The run returns,
  its final table has as many lines as the source table, and a line of the final table
  holds these values when the first line of its order, in the row order of the source
  table, has that financial status.
\<close>

theorem estado_financiero_fijo:
  assumes "fecha_archivo env t = Inr fecha"
    and "fechas_columna env (map Created_at t) = Inr fechas"
    and "list_all nota_legible t"
  shows "(\<exists>cl. fa_clasificar (map fa_limpiar_dni t) (fa_columnas_a_copiar fechas t) = Inr cl \<and>
            length cl = length t \<and>
            (\<forall>i<length t.
               (Financial_Status (t ! i) = Str ''expired'' \<longrightarrow> Status (cl ! i) = ''VENCIDO'') \<and>
               (Financial_Status (t ! i) = Str ''refunded'' \<longrightarrow> Status (cl ! i) = ''REEMBOLSADO'') \<and>
               (Financial_Status (t ! i) = Str ''pending'' \<longrightarrow> Status (cl ! i) = ''FALTA PAGAR'') \<and>
               (Financial_Status (t ! i) \<notin>
                  {Str ''paid'', Str ''expired'', Str ''refunded'', Str ''pending''}
                \<longrightarrow> Status (cl ! i) = [])))
       \<and> (\<exists>t' final e. fa_procesar_archivo env t = Inr (t', final, fecha, e) \<and>
            length final = length t \<and>
            (\<forall>r\<in>set final. \<exists>f. primera_linea t (Name r) = Some f \<and>
               (Financial_Status f = Str ''expired'' \<longrightarrow> Status r = ''VENCIDO'') \<and>
               (Financial_Status f = Str ''refunded'' \<longrightarrow> Status r = ''REEMBOLSADO'') \<and>
               (Financial_Status f = Str ''pending'' \<longrightarrow> Status r = ''FALTA PAGAR'') \<and>
               (Financial_Status f \<notin>
                  {Str ''paid'', Str ''expired'', Str ''refunded'', Str ''pending''}
                \<longrightarrow> Status r = [])))"
proof (rule conjI)
  from fa_clasificar_nth[OF assms(3), of fechas] obtain cl :: "arg_row list" where
    cl: "fa_clasificar (map fa_limpiar_dni t) (fa_columnas_a_copiar fechas t) = Inr cl"
      "length cl = length t"
    and n: "\<forall>i<length t. Name (cl ! i) = Name (t ! i) \<and>
                fa_status_fila (fa_limpiar_dni (t ! i)) [] = Inr (Status (cl ! i))" by blast
  have "\<forall>i<length t.
               (Financial_Status (t ! i) = Str ''expired'' \<longrightarrow> Status (cl ! i) = ''VENCIDO'') \<and>
               (Financial_Status (t ! i) = Str ''refunded'' \<longrightarrow> Status (cl ! i) = ''REEMBOLSADO'') \<and>
               (Financial_Status (t ! i) = Str ''pending'' \<longrightarrow> Status (cl ! i) = ''FALTA PAGAR'') \<and>
               (Financial_Status (t ! i) \<notin>
                  {Str ''paid'', Str ''expired'', Str ''refunded'', Str ''pending''}
                \<longrightarrow> Status (cl ! i) = [])"
  proof (intro allI impI)
    fix i assume "i < length t"
    with n have "fa_status_fila (fa_limpiar_dni (t ! i)) [] = Inr (Status (cl ! i))" by simp
    then show "(Financial_Status (t ! i) = Str ''expired'' \<longrightarrow> Status (cl ! i) = ''VENCIDO'') \<and>
               (Financial_Status (t ! i) = Str ''refunded'' \<longrightarrow> Status (cl ! i) = ''REEMBOLSADO'') \<and>
               (Financial_Status (t ! i) = Str ''pending'' \<longrightarrow> Status (cl ! i) = ''FALTA PAGAR'') \<and>
               (Financial_Status (t ! i) \<notin>
                  {Str ''paid'', Str ''expired'', Str ''refunded'', Str ''pending''}
                \<longrightarrow> Status (cl ! i) = [])"
      by (rule fa_status_fila_fijo)
  qed
  with cl show "\<exists>cl. fa_clasificar (map fa_limpiar_dni t) (fa_columnas_a_copiar fechas t) = Inr cl \<and>
            length cl = length t \<and>
            (\<forall>i<length t.
               (Financial_Status (t ! i) = Str ''expired'' \<longrightarrow> Status (cl ! i) = ''VENCIDO'') \<and>
               (Financial_Status (t ! i) = Str ''refunded'' \<longrightarrow> Status (cl ! i) = ''REEMBOLSADO'') \<and>
               (Financial_Status (t ! i) = Str ''pending'' \<longrightarrow> Status (cl ! i) = ''FALTA PAGAR'') \<and>
               (Financial_Status (t ! i) \<notin>
                  {Str ''paid'', Str ''expired'', Str ''refunded'', Str ''pending''}
                \<longrightarrow> Status (cl ! i) = []))" by blast
next
  from fa_final_primera_linea[OF assms] obtain final e where
    p: "fa_procesar_archivo env t = Inr (map fa_limpiar_dni t, final, fecha, e)"
      "length final = length t"
    and f: "\<forall>r\<in>set final. \<exists>f. primera_linea t (Name r) = Some f \<and>
                fa_status_fila (fa_limpiar_dni f) [] = Inr (Status r)" by blast
  have "\<forall>r\<in>set final. \<exists>f. primera_linea t (Name r) = Some f \<and>
               (Financial_Status f = Str ''expired'' \<longrightarrow> Status r = ''VENCIDO'') \<and>
               (Financial_Status f = Str ''refunded'' \<longrightarrow> Status r = ''REEMBOLSADO'') \<and>
               (Financial_Status f = Str ''pending'' \<longrightarrow> Status r = ''FALTA PAGAR'') \<and>
               (Financial_Status f \<notin>
                  {Str ''paid'', Str ''expired'', Str ''refunded'', Str ''pending''}
                \<longrightarrow> Status r = [])"
  proof
    fix r assume "r \<in> set final"
    with f obtain f0 where f0: "primera_linea t (Name r) = Some f0"
      "fa_status_fila (fa_limpiar_dni f0) [] = Inr (Status r)" by blast
    from fa_status_fila_fijo[OF f0(2)] f0(1)
    show "\<exists>f. primera_linea t (Name r) = Some f \<and>
               (Financial_Status f = Str ''expired'' \<longrightarrow> Status r = ''VENCIDO'') \<and>
               (Financial_Status f = Str ''refunded'' \<longrightarrow> Status r = ''REEMBOLSADO'') \<and>
               (Financial_Status f = Str ''pending'' \<longrightarrow> Status r = ''FALTA PAGAR'') \<and>
               (Financial_Status f \<notin>
                  {Str ''paid'', Str ''expired'', Str ''refunded'', Str ''pending''}
                \<longrightarrow> Status r = [])"
      by blast
  qed
  with p show "\<exists>t' final e. fa_procesar_archivo env t = Inr (t', final, fecha, e) \<and>
            length final = length t \<and>
            (\<forall>r\<in>set final. \<exists>f. primera_linea t (Name r) = Some f \<and>
               (Financial_Status f = Str ''expired'' \<longrightarrow> Status r = ''VENCIDO'') \<and>
               (Financial_Status f = Str ''refunded'' \<longrightarrow> Status r = ''REEMBOLSADO'') \<and>
               (Financial_Status f = Str ''pending'' \<longrightarrow> Status r = ''FALTA PAGAR'') \<and>
               (Financial_Status f \<notin>
                  {Str ''paid'', Str ''expired'', Str ''refunded'', Str ''pending''}
                \<longrightarrow> Status r = []))" by blast
qed

theorem estado_financiero_fijo_witness:
  "fecha_archivo entorno_ej ej_pedido_vencido = Inr ''01-05-2024''
   \<and> fechas_columna entorno_ej (map Created_at ej_pedido_vencido)
       = Inr (fechas_ej (map Created_at ej_pedido_vencido))
   \<and> list_all nota_legible ej_pedido_vencido
   \<and> Financial_Status (ej_pedido_vencido ! 0) = Str ''expired''
   \<and> Financial_Status (ej_pedido_vencido ! 1) = NaN
   \<and> primera_linea ej_pedido_vencido ''#1003'' = Some (ej_pedido_vencido ! 0)
   \<and> (\<exists>cl. fa_clasificar (map fa_limpiar_dni ej_pedido_vencido)
               (fa_columnas_a_copiar (fechas_ej (map Created_at ej_pedido_vencido))
                  ej_pedido_vencido) = Inr cl \<and>
            Status (cl ! 0) = ''VENCIDO'' \<and> Status (cl ! 1) = [])
   \<and> (\<exists>t' final e. fa_procesar_archivo entorno_ej ej_pedido_vencido
                       = Inr (t', final, ''01-05-2024'', e) \<and>
            length final = length ej_pedido_vencido)
   \<and> fa_columna_status entorno_ej ej_pedido_vencido = Inr [''VENCIDO'', ''VENCIDO'']"
proof -
  have d1: "fecha_archivo entorno_ej ej_pedido_vencido = Inr ''01-05-2024''" by code_simp
  have d2: "fechas_columna entorno_ej (map Created_at ej_pedido_vencido)
       = Inr (fechas_ej (map Created_at ej_pedido_vencido))"
    by (simp add: entorno_ej_def ej_pedido_vencido_def linea_def)
  have h: "list_all nota_legible ej_pedido_vencido" by code_simp
  have l: "0 < length ej_pedido_vencido" "1 < length ej_pedido_vencido" by code_simp+
  have f0: "Financial_Status (ej_pedido_vencido ! 0) = Str ''expired''" by code_simp
  have f1: "Financial_Status (ej_pedido_vencido ! 1) = NaN" by code_simp
  have p: "primera_linea ej_pedido_vencido ''#1003'' = Some (ej_pedido_vencido ! 0)" by code_simp
  have c: "fa_columna_status entorno_ej ej_pedido_vencido = Inr [''VENCIDO'', ''VENCIDO'']"
    by code_simp
  note T = estado_financiero_fijo[OF d1 d2 h]
  from T obtain cl where
    cl: "fa_clasificar (map fa_limpiar_dni ej_pedido_vencido)
               (fa_columnas_a_copiar (fechas_ej (map Created_at ej_pedido_vencido))
                  ej_pedido_vencido) = Inr cl"
    and a: "\<forall>i<length ej_pedido_vencido.
               (Financial_Status (ej_pedido_vencido ! i) = Str ''expired'' \<longrightarrow> Status (cl ! i) = ''VENCIDO'') \<and>
               (Financial_Status (ej_pedido_vencido ! i) = Str ''refunded'' \<longrightarrow> Status (cl ! i) = ''REEMBOLSADO'') \<and>
               (Financial_Status (ej_pedido_vencido ! i) = Str ''pending'' \<longrightarrow> Status (cl ! i) = ''FALTA PAGAR'') \<and>
               (Financial_Status (ej_pedido_vencido ! i) \<notin>
                  {Str ''paid'', Str ''expired'', Str ''refunded'', Str ''pending''}
                \<longrightarrow> Status (cl ! i) = [])" by blast
  from a l(1) f0 have s0: "Status (cl ! 0) = ''VENCIDO''" by blast
  from a l(2) f1 have s1: "Status (cl ! 1) = []" by simp
  from T have r: "\<exists>t' final e. fa_procesar_archivo entorno_ej ej_pedido_vencido
                       = Inr (t', final, ''01-05-2024'', e) \<and>
            length final = length ej_pedido_vencido" by blast
  from d1 d2 h f0 f1 p c cl s0 s1 r show ?thesis by blast
qed

section \<open>What a run changes\<close>

lemma fa_limpiar_dni_marco: "(fa_limpiar_dni r)\<lparr>Shipping_Company := Shipping_Company r\<rparr> = r"
  by (simp add: fa_limpiar_dni_def)

lemma fan_limpiar_marco:
  "(fan_limpiar r)\<lparr>Shipping_Company := Shipping_Company r, Shipping_Name := Shipping_Name r,
                   Shipping_Phone := Shipping_Phone r\<rparr> = r"
  by (simp add: fan_limpiar_def)

lemma Shipping_Name_fan_limpiar:
  "Shipping_Name (fan_limpiar r) = (if Shipping_Name r = NaN then Str [] else Shipping_Name r)"
  by (cases "Shipping_Name r") (simp_all add: fan_limpiar_def)

lemma Shipping_Phone_fan_limpiar:
  "Shipping_Phone (fan_limpiar r) = Str (replace_nan (py_str (Shipping_Phone r)))"
  by (simp add: fan_limpiar_def astype_str_def)

lemma sin_status_update [simp]: "sin_status (r\<lparr>Status := s\<rparr>) = sin_status r"
  by (simp add: sin_status_def)

lemma unificar_status_marco:
  "\<exists>u. unificar_status df = Inr u \<and>
        mset (map sin_status u) = mset (map sin_status df) \<and>
        (sorted (map Name df) \<longrightarrow> map sin_status u = map sin_status df)"
proof -
  let ?h = "\<lambda>r. r\<lparr>Status := Status (the (find (\<lambda>x. Name x = Name r) df))\<rparr>"
  let ?u = "map ?h (sort_key Name df)"
  have u: "unificar_status df = Inr ?u" by (rule unificar_status_sort_key)
  have s: "map sin_status ?u = map sin_status (sort_key Name df)" by simp
  have m: "mset (map sin_status ?u) = mset (map sin_status df)"
    unfolding s by simp
  have o: "sorted (map Name df) \<longrightarrow> map sin_status ?u = map sin_status df"
    unfolding s by (simp add: sort_key_id_if_sorted)
  show ?thesis by (intro exI[of _ ?u] conjI) (fact u, fact m, fact o)
qed

text \<open>
  C7, as stated, fails for the source table: step 4 writes the cleaned id field into the
  source table itself, so after a run the id field \<open>12.345.678\<close> reads \<open>12345678\<close>
  and a missing id field reads \<open>nan\<close>.
\<close>

theorem fa_modifica_entrada:
  "fa_archcsv1_despues entorno_ej ej_dni_puntos =
     Inr [linea ''#1002'' (Str ''paid'') (Str ''5000'') (Str ''Correo Argentino'')
            (Str ''12345678'') NaN,
          linea ''#1001'' (Str ''pending'') (Str ''C1425'') (Str ''Correo Argentino'')
            (Str ''nan'') NaN]
   \<and> fa_archcsv1_despues entorno_ej ej_dni_puntos \<noteq> Inr ej_dni_puntos"
  by code_simp

text \<open>
  C7, amended. A run of FiltroArgentina that returns leaves every field of every line of
  the source table as it was, except the id field, which then holds its string form
  without dots and spaces. A run of filtroAndreani that returns leaves every field of
  every line of the source table as it was, except three: the id field, cleaned in that
  same way; the shipping name, where a missing value has become the empty string; and the
  shipping phone, which holds its string form with every \<open>nan\<close> removed. On a table in
  which no paid line has a number as note, filtroAndreani returns when the date of the
  file is found, and FiltroArgentina returns when moreover the display dates of the
  column are. The consolidation keeps the lines of its working table with every field
  other than the status as before: as a multiset of lines in general (the groups come out
  in ascending order number), and line by line when the table is sorted by order number.
\<close>

theorem marco_de_una_corrida:
  "(fa_procesar_archivo env t = Inr (t', final, fecha, e) \<longrightarrow>
      length t' = length t \<and>
      (\<forall>i<length t.
         (t' ! i)\<lparr>Shipping_Company := Shipping_Company (t ! i)\<rparr> = t ! i \<and>
         Shipping_Company (t' ! i) =
           Str (replace_char CHR '' '' (replace_char CHR ''.''
                  (py_str (Shipping_Company (t ! i)))))))
   \<and> (fan_procesar_archivo env t = Inr (t2, final2, fecha2) \<longrightarrow>
      length t2 = length t \<and>
      (\<forall>i<length t.
         (t2 ! i)\<lparr>Shipping_Company := Shipping_Company (t ! i),
                  Shipping_Name := Shipping_Name (t ! i),
                  Shipping_Phone := Shipping_Phone (t ! i)\<rparr> = t ! i \<and>
         Shipping_Company (t2 ! i) =
           Str (replace_char CHR '' '' (replace_char CHR ''.''
                  (py_str (Shipping_Company (t ! i))))) \<and>
         Shipping_Name (t2 ! i) =
           (if Shipping_Name (t ! i) = NaN then Str [] else Shipping_Name (t ! i)) \<and>
         Shipping_Phone (t2 ! i) = Str (replace_nan (py_str (Shipping_Phone (t ! i))))))
   \<and> (list_all nota_legible t \<and> fecha_archivo env t = Inr f \<longrightarrow>
        (\<exists>final2. fan_procesar_archivo env t = Inr (map fan_limpiar t, final2, f)) \<and>
        (fechas_columna env (map Created_at t) = Inr fs \<longrightarrow>
           (\<exists>final e. fa_procesar_archivo env t = Inr (map fa_limpiar_dni t, final, f, e))))
   \<and> (\<exists>u. unificar_status df = Inr u \<and>
         mset (map sin_status u) = mset (map sin_status df) \<and>
         (sorted (map Name df) \<longrightarrow> map sin_status u = map sin_status df))"
proof (intro conjI impI)
  assume p: "fa_procesar_archivo env t = Inr (t', final, fecha, e)"
  from fa_procesar_archivo_Inr[OF p] have "t' = map fa_limpiar_dni t" by simp
  then show "length t' = length t" by simp
next
  assume p: "fa_procesar_archivo env t = Inr (t', final, fecha, e)"
  from fa_procesar_archivo_Inr[OF p] have t': "t' = map fa_limpiar_dni t" by simp
  show "\<forall>i<length t.
         (t' ! i)\<lparr>Shipping_Company := Shipping_Company (t ! i)\<rparr> = t ! i \<and>
         Shipping_Company (t' ! i) =
           Str (replace_char CHR '' '' (replace_char CHR ''.''
                  (py_str (Shipping_Company (t ! i)))))"
    unfolding t' by (simp add: fa_limpiar_dni_marco Shipping_Company_limpiar)
next
  assume p: "fan_procesar_archivo env t = Inr (t2, final2, fecha2)"
  from fan_procesar_archivo_Inr[OF p] have "t2 = map fan_limpiar t" by simp
  then show "length t2 = length t" by simp
next
  assume p: "fan_procesar_archivo env t = Inr (t2, final2, fecha2)"
  from fan_procesar_archivo_Inr[OF p] have t2: "t2 = map fan_limpiar t" by simp
  show "\<forall>i<length t.
         (t2 ! i)\<lparr>Shipping_Company := Shipping_Company (t ! i),
                  Shipping_Name := Shipping_Name (t ! i),
                  Shipping_Phone := Shipping_Phone (t ! i)\<rparr> = t ! i \<and>
         Shipping_Company (t2 ! i) =
           Str (replace_char CHR '' '' (replace_char CHR ''.''
                  (py_str (Shipping_Company (t ! i))))) \<and>
         Shipping_Name (t2 ! i) =
           (if Shipping_Name (t ! i) = NaN then Str [] else Shipping_Name (t ! i)) \<and>
         Shipping_Phone (t2 ! i) = Str (replace_nan (py_str (Shipping_Phone (t ! i))))"
    unfolding t2
    by (simp add: fan_limpiar_marco Shipping_Company_limpiar Shipping_Name_fan_limpiar
        Shipping_Phone_fan_limpiar)
next
  assume a: "list_all nota_legible t \<and> fecha_archivo env t = Inr f"
  then have "fecha_archivo env t = Inr f" "list_all nota_legible t" by simp_all
  from fan_procesar_archivo_devuelve[OF this]
  show "\<exists>final2. fan_procesar_archivo env t = Inr (map fan_limpiar t, final2, f)" by blast
next
  assume a: "list_all nota_legible t \<and> fecha_archivo env t = Inr f"
    and b: "fechas_columna env (map Created_at t) = Inr fs"
  from a have "fecha_archivo env t = Inr f" "list_all nota_legible t" by simp_all
  from fa_procesar_archivo_devuelve[OF this(1) b this(2)]
  show "\<exists>final e. fa_procesar_archivo env t = Inr (map fa_limpiar_dni t, final, f, e)" by blast
next
  show "\<exists>u. unificar_status df = Inr u \<and>
            mset (map sin_status u) = mset (map sin_status df) \<and>
            (sorted (map Name df) \<longrightarrow> map sin_status u = map sin_status df)"
    by (rule unificar_status_marco)
qed

theorem marco_de_una_corrida_witness:
  "fa_procesar_archivo entorno_ej ej_dni_puntos =
     Inr (map fa_limpiar_dni ej_dni_puntos,
          map fa_arreglar_telefono
            [(fa_copiar (Str ''01/05/2024'') (ej_dni_puntos ! 1))\<lparr>Status := ''FALTA PAGAR''\<rparr>,
             (fa_copiar (Str ''01/05/2024'') (ej_dni_puntos ! 0))\<lparr>Status := []\<rparr>],
          ''01-05-2024'',
          \<lparr>caba = 0, falta_pagar = 1, vencido = 0, reembolsado = 0, notas = 0,
           sin_clasificar = 1, revisar_dni = 0\<rparr>)
   \<and> fan_procesar_archivo entorno_ej ej_dni_puntos =
     Inr (map fan_limpiar ej_dni_puntos,
          map fan_arreglar_telefono
            [(fan_valores_tecnicos (fan_copiar (ej_dni_puntos ! 1)))\<lparr>Status := ''FALTA PAGAR''\<rparr>,
             (fan_valores_tecnicos (fan_copiar (ej_dni_puntos ! 0)))\<lparr>Status := []\<rparr>],
          ''01-05-2024'')
   \<and> list_all nota_legible ej_dni_puntos
   \<and> fecha_archivo entorno_ej ej_dni_puntos = Inr ''01-05-2024''
   \<and> fechas_columna entorno_ej (map Created_at ej_dni_puntos)
       = Inr (fechas_ej (map Created_at ej_dni_puntos))
   \<and> sorted (map Name [\<lparr>Name = ''#1001'', Status = ''VENCIDO''\<rparr>,
                        \<lparr>Name = ''#1002'', Status = ''CABA''\<rparr>,
                        \<lparr>Name = ''#1002'', Status = []\<rparr>])
   \<and> (map fa_limpiar_dni ej_dni_puntos ! 0)\<lparr>Shipping_Company := Str ''12.345.678''\<rparr>
       = ej_dni_puntos ! 0
   \<and> Shipping_Company (map fa_limpiar_dni ej_dni_puntos ! 0) = Str ''12345678''
   \<and> (map fan_limpiar ej_dni_puntos ! 0)
        \<lparr>Shipping_Company := Str ''12.345.678'', Shipping_Name := Str ''Ana Perez'',
         Shipping_Phone := Num ''1144445555.0''\<rparr> = ej_dni_puntos ! 0
   \<and> Shipping_Company (map fan_limpiar ej_dni_puntos ! 0) = Str ''12345678''
   \<and> Shipping_Name (map fan_limpiar ej_dni_puntos ! 0) = Str ''Ana Perez''
   \<and> Shipping_Phone (map fan_limpiar ej_dni_puntos ! 0) = Str ''1144445555.0''
   \<and> (\<exists>u. unificar_status [\<lparr>Name = ''#1001'', Status = ''VENCIDO''\<rparr>,
                            \<lparr>Name = ''#1002'', Status = ''CABA''\<rparr>,
                            \<lparr>Name = ''#1002'', Status = []\<rparr>] = Inr u \<and>
           map sin_status u =
             [\<lparr>Name = ''#1001'', Status = []\<rparr>, \<lparr>Name = ''#1002'', Status = []\<rparr>,
              \<lparr>Name = ''#1002'', Status = []\<rparr>])"
proof -
  let ?df = "[\<lparr>Name = ''#1001'', Status = ''VENCIDO''\<rparr>,
              \<lparr>Name = ''#1002'', Status = ''CABA''\<rparr>,
              \<lparr>Name = ''#1002'', Status = []\<rparr>]"
  let ?final = "map fa_arreglar_telefono
            [(fa_copiar (Str ''01/05/2024'') (ej_dni_puntos ! 1))\<lparr>Status := ''FALTA PAGAR''\<rparr>,
             (fa_copiar (Str ''01/05/2024'') (ej_dni_puntos ! 0))\<lparr>Status := []\<rparr>]"
  let ?e = "\<lparr>caba = 0, falta_pagar = 1, vencido = 0, reembolsado = 0, notas = 0,
           sin_clasificar = 1, revisar_dni = 0\<rparr>"
  let ?final2 = "map fan_arreglar_telefono
            [(fan_valores_tecnicos (fan_copiar (ej_dni_puntos ! 1)))\<lparr>Status := ''FALTA PAGAR''\<rparr>,
             (fan_valores_tecnicos (fan_copiar (ej_dni_puntos ! 0)))\<lparr>Status := []\<rparr>]"
  have p1: "fa_procesar_archivo entorno_ej ej_dni_puntos =
     Inr (map fa_limpiar_dni ej_dni_puntos, ?final, ''01-05-2024'', ?e)" by code_simp
  have p2: "fan_procesar_archivo entorno_ej ej_dni_puntos =
     Inr (map fan_limpiar ej_dni_puntos, ?final2, ''01-05-2024'')" by code_simp
  have h: "list_all nota_legible ej_dni_puntos" by code_simp
  have d1: "fecha_archivo entorno_ej ej_dni_puntos = Inr ''01-05-2024''" by code_simp
  have d2: "fechas_columna entorno_ej (map Created_at ej_dni_puntos)
       = Inr (fechas_ej (map Created_at ej_dni_puntos))"
    by (simp add: entorno_ej_def ej_dni_puntos_def linea_def)
  have s: "sorted (map Name ?df)" by code_simp
  have l: "0 < length ej_dni_puntos" by code_simp
  have c: "Shipping_Company (ej_dni_puntos ! 0) = Str ''12.345.678''"
    "Shipping_Name (ej_dni_puntos ! 0) = Str ''Ana Perez''"
    "Shipping_Phone (ej_dni_puntos ! 0) = Num ''1144445555.0''" by code_simp+
  have r: "Str (replace_char CHR '' '' (replace_char CHR ''.'' (py_str (Str ''12.345.678''))))
             = Str ''12345678''"
    "Str (replace_nan (py_str (Num ''1144445555.0''))) = Str ''1144445555.0''" by code_simp+
  have m: "map sin_status ?df =
             [\<lparr>Name = ''#1001'', Status = []\<rparr>, \<lparr>Name = ''#1002'', Status = []\<rparr>,
              \<lparr>Name = ''#1002'', Status = []\<rparr>]" by code_simp
  note T = marco_de_una_corrida[of entorno_ej ej_dni_puntos "map fa_limpiar_dni ej_dni_puntos"
      ?final "''01-05-2024''" ?e "map fan_limpiar ej_dni_puntos" ?final2 "''01-05-2024''"
      "''01-05-2024''" "fechas_ej (map Created_at ej_dni_puntos)" ?df]
  from T p1 l have a1:
    "(map fa_limpiar_dni ej_dni_puntos ! 0)\<lparr>Shipping_Company := Shipping_Company (ej_dni_puntos ! 0)\<rparr>
       = ej_dni_puntos ! 0"
    "Shipping_Company (map fa_limpiar_dni ej_dni_puntos ! 0) =
       Str (replace_char CHR '' '' (replace_char CHR ''.''
              (py_str (Shipping_Company (ej_dni_puntos ! 0)))))" by blast+
  from T p2 l have a2:
    "(map fan_limpiar ej_dni_puntos ! 0)
        \<lparr>Shipping_Company := Shipping_Company (ej_dni_puntos ! 0),
         Shipping_Name := Shipping_Name (ej_dni_puntos ! 0),
         Shipping_Phone := Shipping_Phone (ej_dni_puntos ! 0)\<rparr> = ej_dni_puntos ! 0"
    "Shipping_Company (map fan_limpiar ej_dni_puntos ! 0) =
       Str (replace_char CHR '' '' (replace_char CHR ''.''
              (py_str (Shipping_Company (ej_dni_puntos ! 0)))))"
    "Shipping_Name (map fan_limpiar ej_dni_puntos ! 0) =
       (if Shipping_Name (ej_dni_puntos ! 0) = NaN then Str [] else Shipping_Name (ej_dni_puntos ! 0))"
    "Shipping_Phone (map fan_limpiar ej_dni_puntos ! 0) =
       Str (replace_nan (py_str (Shipping_Phone (ej_dni_puntos ! 0))))" by blast+
  from a1 have b1:
    "(map fa_limpiar_dni ej_dni_puntos ! 0)\<lparr>Shipping_Company := Str ''12.345.678''\<rparr>
       = ej_dni_puntos ! 0"
    "Shipping_Company (map fa_limpiar_dni ej_dni_puntos ! 0) = Str ''12345678''"
    unfolding c r by simp_all
  from a2 have b2:
    "(map fan_limpiar ej_dni_puntos ! 0)
        \<lparr>Shipping_Company := Str ''12.345.678'', Shipping_Name := Str ''Ana Perez'',
         Shipping_Phone := Num ''1144445555.0''\<rparr> = ej_dni_puntos ! 0"
    "Shipping_Company (map fan_limpiar ej_dni_puntos ! 0) = Str ''12345678''"
    "Shipping_Name (map fan_limpiar ej_dni_puntos ! 0) = Str ''Ana Perez''"
    "Shipping_Phone (map fan_limpiar ej_dni_puntos ! 0) = Str ''1144445555.0''"
    unfolding c r by simp_all
  from T s obtain u where u: "unificar_status ?df = Inr u" "map sin_status u = map sin_status ?df"
    by blast
  have 2: "\<exists>u. unificar_status ?df = Inr u \<and> map sin_status u =
             [\<lparr>Name = ''#1001'', Status = []\<rparr>, \<lparr>Name = ''#1002'', Status = []\<rparr>,
              \<lparr>Name = ''#1002'', Status = []\<rparr>]"
    by (rule exI[of _ u]) (simp only: u m simp_thms)
  from p1 p2 h d1 d2 s b1 b2 2 show ?thesis by blast
qed

section \<open>A second run\<close>

lemma replace_char_idem:
  "replace_char c (replace_char d (replace_char c (replace_char d s))) =
   replace_char c (replace_char d s)"
  unfolding replace_char_def filter_filter by (rule filter_cong) auto

lemma fa_limpiar_dni_idem: "fa_limpiar_dni (fa_limpiar_dni r) = fa_limpiar_dni r"
  by (simp add: fa_limpiar_dni_def astype_str_def replace_char_idem)

lemma fa_copiar_limpiar: "fa_copiar fecha (fa_limpiar_dni r) = fa_copiar fecha r"
  by (simp add: fa_copiar_def fa_limpiar_dni_def)

lemma Created_at_fa_limpiar_dni [simp]: "Created_at (fa_limpiar_dni r) = Created_at r"
  by (simp add: fa_limpiar_dni_def)

lemma primera_fecha_limpiar:
  "primera_fecha td (map fa_limpiar_dni t) = primera_fecha td t"
  by (induction t) (simp_all split: sum.splits)

lemma fecha_archivo_limpiar: "fecha_archivo env (map fa_limpiar_dni t) = fecha_archivo env t"
  by (simp add: fecha_archivo_def primera_fecha_limpiar)

lemma columna_fechas_limpiar: "map Created_at (map fa_limpiar_dni t) = map Created_at t"
  by simp

lemma fa_columnas_a_copiar_limpiar:
  "fa_columnas_a_copiar fechas (map fa_limpiar_dni t) = fa_columnas_a_copiar fechas t"
  unfolding fa_columnas_a_copiar_def
  by (rule nth_equalityI) (simp_all add: fa_copiar_limpiar)

lemma fa_procesar_archivo_segunda:
  "fa_procesar_archivo env (map fa_limpiar_dni t) = fa_procesar_archivo env t"
proof -
  have a: "map fa_limpiar_dni (map fa_limpiar_dni t) = map fa_limpiar_dni t"
    by (simp add: fa_limpiar_dni_idem)
  show ?thesis
    unfolding fa_procesar_archivo_def fecha_archivo_limpiar columna_fechas_limpiar
      fa_columnas_a_copiar_limpiar a ..
qed

lemma fa_procesar_archivo_fuente:
  "fa_procesar_archivo env t = Inr (t', final, fecha, e) \<Longrightarrow> t' = map fa_limpiar_dni t"
  using fa_procesar_archivo_Inr by blast

text \<open>
  C9. A run of FiltroArgentina on the source table as a first run leaves it (the id
  field cleaned) behaves as the first run did, the library and the clock being the same.
  When the first run returns, the table it leaves is that one, and the second run returns
  the same result: the same source table, the same final table, date and statistics,
  hence the same status on every line.
\<close>

theorem segunda_corrida:
  "fa_procesar_archivo env (map fa_limpiar_dni t) = fa_procesar_archivo env t
   \<and> (fa_procesar_archivo env t = Inr (t', final, fecha, e) \<longrightarrow>
        t' = map fa_limpiar_dni t \<and>
        fa_procesar_archivo env t' = Inr (t', final, fecha, e) \<and>
        fa_columna_status env t' = fa_columna_status env t)"
proof (intro conjI impI)
  show "fa_procesar_archivo env (map fa_limpiar_dni t) = fa_procesar_archivo env t"
    by (rule fa_procesar_archivo_segunda)
next
  assume p: "fa_procesar_archivo env t = Inr (t', final, fecha, e)"
  then show "t' = map fa_limpiar_dni t" by (rule fa_procesar_archivo_fuente)
next
  assume p: "fa_procesar_archivo env t = Inr (t', final, fecha, e)"
  from fa_procesar_archivo_fuente[OF p] have "t' = map fa_limpiar_dni t" .
  with p show "fa_procesar_archivo env t' = Inr (t', final, fecha, e)"
    by (simp add: fa_procesar_archivo_segunda)
next
  assume p: "fa_procesar_archivo env t = Inr (t', final, fecha, e)"
  from fa_procesar_archivo_fuente[OF p] have "t' = map fa_limpiar_dni t" .
  then show "fa_columna_status env t' = fa_columna_status env t"
    by (simp add: fa_columna_status_def fa_procesar_archivo_segunda)
qed

theorem segunda_corrida_witness:
  "fa_procesar_archivo entorno_ej ej_dni_puntos =
     Inr (map fa_limpiar_dni ej_dni_puntos,
          map fa_arreglar_telefono
            [(fa_copiar (Str ''01/05/2024'') (ej_dni_puntos ! 1))\<lparr>Status := ''FALTA PAGAR''\<rparr>,
             (fa_copiar (Str ''01/05/2024'') (ej_dni_puntos ! 0))\<lparr>Status := []\<rparr>],
          ''01-05-2024'',
          \<lparr>caba = 0, falta_pagar = 1, vencido = 0, reembolsado = 0, notas = 0,
           sin_clasificar = 1, revisar_dni = 0\<rparr>)
   \<and> fa_procesar_archivo entorno_ej (map fa_limpiar_dni ej_dni_puntos) =
     Inr (map fa_limpiar_dni ej_dni_puntos,
          map fa_arreglar_telefono
            [(fa_copiar (Str ''01/05/2024'') (ej_dni_puntos ! 1))\<lparr>Status := ''FALTA PAGAR''\<rparr>,
             (fa_copiar (Str ''01/05/2024'') (ej_dni_puntos ! 0))\<lparr>Status := []\<rparr>],
          ''01-05-2024'',
          \<lparr>caba = 0, falta_pagar = 1, vencido = 0, reembolsado = 0, notas = 0,
           sin_clasificar = 1, revisar_dni = 0\<rparr>)
   \<and> fa_columna_status entorno_ej (map fa_limpiar_dni ej_dni_puntos) = Inr [''FALTA PAGAR'', []]"
proof -
  have h: "fa_procesar_archivo entorno_ej ej_dni_puntos =
     Inr (map fa_limpiar_dni ej_dni_puntos,
          map fa_arreglar_telefono
            [(fa_copiar (Str ''01/05/2024'') (ej_dni_puntos ! 1))\<lparr>Status := ''FALTA PAGAR''\<rparr>,
             (fa_copiar (Str ''01/05/2024'') (ej_dni_puntos ! 0))\<lparr>Status := []\<rparr>],
          ''01-05-2024'',
          \<lparr>caba = 0, falta_pagar = 1, vencido = 0, reembolsado = 0, notas = 0,
           sin_clasificar = 1, revisar_dni = 0\<rparr>)" by code_simp
  have c: "fa_columna_status entorno_ej ej_dni_puntos = Inr [''FALTA PAGAR'', []]" by code_simp
  from segunda_corrida[of entorno_ej ej_dni_puntos "map fa_limpiar_dni ej_dni_puntos"
      "map fa_arreglar_telefono
            [(fa_copiar (Str ''01/05/2024'') (ej_dni_puntos ! 1))\<lparr>Status := ''FALTA PAGAR''\<rparr>,
             (fa_copiar (Str ''01/05/2024'') (ej_dni_puntos ! 0))\<lparr>Status := []\<rparr>]"
      "''01-05-2024''"
      "\<lparr>caba = 0, falta_pagar = 1, vencido = 0, reembolsado = 0, notas = 0,
           sin_clasificar = 1, revisar_dni = 0\<rparr>"] h c
  show ?thesis by simp
qed

section \<open>The status column depends on order numbers and statuses only\<close>

lemma map_sort_key_self: "map f (sort_key f xs) = sort (map f xs)"
proof -
  have "mset (map f (sort_key f xs)) = mset (map f xs)" by simp
  moreover have "sorted (map f (sort_key f xs))" by simp
  ultimately show ?thesis by (rule properties_for_sort[symmetric])
qed

lemma find_claves:
  "map clave_status df = map clave_status df' \<Longrightarrow>
   map_option clave_status (find (\<lambda>x. Name x = k) df) =
   map_option clave_status (find (\<lambda>x. Name x = k) df')"
proof (induction df arbitrary: df')
  case Nil
  then show ?case by simp
next
  case (Cons a df)
  then obtain b df2 where d: "df' = b # df2" "clave_status a = clave_status b"
    "map clave_status df = map clave_status df2" by (cases df') auto
  from d(2) have "Name a = Name b" by (simp add: clave_status_def)
  with Cons.IH[OF d(3)] d show ?case by simp
qed

lemma primer_status_claves:
  assumes "map clave_status df = map clave_status df'" and "k \<in> Name ` set df"
  shows "Status (the (find (\<lambda>x. Name x = k) df)) = Status (the (find (\<lambda>x. Name x = k) df'))"
proof -
  from assms(2) obtain c where c: "find (\<lambda>x. Name x = k) df = Some c"
    by (cases "find (\<lambda>x. Name x = k) df") (auto simp: find_None_iff)
  with find_claves[OF assms(1), of k] obtain c' where
    c': "find (\<lambda>x. Name x = k) df' = Some c'" "clave_status c = clave_status c'"
    by (cases "find (\<lambda>x. Name x = k) df'") auto
  from c c' show ?thesis by (simp add: clave_status_def)
qed

lemma unificar_status_claves:
  assumes "map clave_status df = map clave_status df'"
    and "unificar_status df = Inr u" and "unificar_status df' = Inr u'"
  shows "map Status u = map Status u'"
proof -
  have n: "map Name df = map Name df'"
  proof -
    have "map fst (map clave_status df) = map fst (map clave_status df')" using assms(1) by simp
    then show ?thesis by (simp add: clave_status_def comp_def)
  qed
  have u: "map Status u = map (\<lambda>k. Status (the (find (\<lambda>x. Name x = k) df))) (sort (map Name df))"
  proof -
    from assms(2) have "u = map (\<lambda>r. r\<lparr>Status := Status (the (find (\<lambda>x. Name x = Name r) df))\<rparr>)
                             (sort_key Name df)"
      by (simp add: unificar_status_sort_key)
    then have "map Status u =
        map (\<lambda>k. Status (the (find (\<lambda>x. Name x = k) df))) (map Name (sort_key Name df))"
      by (simp add: comp_def)
    then show ?thesis by (simp only: map_sort_key_self)
  qed
  have u': "map Status u' = map (\<lambda>k. Status (the (find (\<lambda>x. Name x = k) df'))) (sort (map Name df'))"
  proof -
    from assms(3) have "u' = map (\<lambda>r. r\<lparr>Status := Status (the (find (\<lambda>x. Name x = Name r) df'))\<rparr>)
                             (sort_key Name df')"
      by (simp add: unificar_status_sort_key)
    then have "map Status u' =
        map (\<lambda>k. Status (the (find (\<lambda>x. Name x = k) df'))) (map Name (sort_key Name df'))"
      by (simp add: comp_def)
    then show ?thesis by (simp only: map_sort_key_self)
  qed
  have "map (\<lambda>k. Status (the (find (\<lambda>x. Name x = k) df))) (sort (map Name df))
      = map (\<lambda>k. Status (the (find (\<lambda>x. Name x = k) df'))) (sort (map Name df))"
    by (rule map_cong[OF refl]) (simp add: primer_status_claves[OF assms(1)])
  with u u' n show ?thesis by simp
qed

lemma claves_nth:
  assumes "length cl = length t" and "length cl' = length t"
    and "\<forall>i<length t. Name (cl ! i) = Name (t ! i) \<and> F (t ! i) = Inr (Status (cl ! i))"
    and "\<forall>i<length t. Name (cl' ! i) = Name (t ! i) \<and> F (t ! i) = Inr (Status (cl' ! i))"
  shows "map clave_status cl = map clave_status cl'"
proof (rule nth_equalityI)
  show "length (map clave_status cl) = length (map clave_status cl')" using assms(1,2) by simp
next
  fix i assume "i < length (map clave_status cl)"
  then have i: "i < length t" using assms(1) by simp
  from assms(3) i have a: "Name (cl ! i) = Name (t ! i)" "F (t ! i) = Inr (Status (cl ! i))" by simp_all
  from assms(4) i have b: "Name (cl' ! i) = Name (t ! i)" "F (t ! i) = Inr (Status (cl' ! i))" by simp_all
  from a b have "Status (cl ! i) = Status (cl' ! i)" by simp
  with a(1) b(1) i assms(1,2) show "map clave_status cl ! i = map clave_status cl' ! i"
    by (simp add: clave_status_def)
qed

section \<open>The status columns of the two processors\<close>

lemma fa_status_fila_campos:
  assumes "Shipping_Company r = Shipping_Company r'"
    and "Financial_Status r = Financial_Status r'"
    and "Shipping_Zip r = Shipping_Zip r'"
    and "Shipping_Method r = Shipping_Method r'"
    and "Notes r = Notes r'"
    and "Shipping_Province_Name r = Shipping_Province_Name r'"
  shows "fa_status_fila r st = fa_status_fila r' st"
  unfolding fa_status_fila_def fa_bucle1_def fa_bucle2_def fa_bucle3_def fa_bucle4_def fa_tierra_def
  by (simp only: assms)

lemma fa_status_fila_fan_limpiar:
  "fa_status_fila (fan_limpiar r) st = fa_status_fila (fa_limpiar_dni r) st"
  by (rule fa_status_fila_campos) (simp_all add: Shipping_Company_limpiar)

lemma fa_status_fila_fan_limpiar_despues:
  "fa_status_fila (fan_limpiar (fa_limpiar_dni r)) st = fa_status_fila (fa_limpiar_dni r) st"
  by (rule fa_status_fila_campos) (simp_all add: Shipping_Company_limpiar replace_char_idem)

lemma fan_columna_status_legible:
  assumes "fecha_archivo env t = Inr fecha" and "list_all nota_legible t"
  shows "\<exists>(cl::and_row list) u. length cl = length t \<and>
           (\<forall>i<length t. Name (cl ! i) = Name (t ! i) \<and>
                fa_status_fila (fan_limpiar (t ! i)) [] = Inr (Status (cl ! i))) \<and>
           unificar_status cl = Inr u \<and>
           fan_columna_status env t = Inr (map Status u)"
proof -
  from fan_procesar_archivo_devuelve[OF assms] obtain cl :: "and_row list" and u where
    l: "length cl = length t"
    and n: "\<forall>i<length t. Name (cl ! i) = Name (t ! i) \<and>
                fa_status_fila (fan_limpiar (t ! i)) [] = Inr (Status (cl ! i))"
    and u: "unificar_status cl = Inr u"
    and p: "fan_procesar_archivo env t = Inr (map fan_limpiar t, map fan_arreglar_telefono u, fecha)"
    by blast
  have "fan_columna_status env t = Inr (map Status u)"
    by (simp add: fan_columna_status_def p comp_def)
  with l n u show ?thesis by blast
qed

lemma fa_columna_status_legible:
  assumes "fecha_archivo env t = Inr fecha"
    and "fechas_columna env (map Created_at t) = Inr fechas"
    and "list_all nota_legible t"
  shows "\<exists>(cl::arg_row list) u. length cl = length t \<and>
           (\<forall>i<length t. Name (cl ! i) = Name (t ! i) \<and>
                fa_status_fila (fa_limpiar_dni (t ! i)) [] = Inr (Status (cl ! i))) \<and>
           unificar_status cl = Inr u \<and>
           fa_columna_status env t = Inr (map Status u)"
proof -
  from fa_procesar_archivo_devuelve[OF assms] obtain cl :: "arg_row list" and u where
    l: "length cl = length t"
    and n: "\<forall>i<length t. Name (cl ! i) = Name (t ! i) \<and>
                fa_status_fila (fa_limpiar_dni (t ! i)) [] = Inr (Status (cl ! i))"
    and u: "unificar_status cl = Inr u"
    and p: "fa_procesar_archivo env t =
             Inr (map fa_limpiar_dni t, map fa_arreglar_telefono u, fecha,
                  calcular_estadisticas (map fa_arreglar_telefono u))" by blast
  have "fa_columna_status env t = Inr (map Status u)"
    by (simp add: fa_columna_status_def p comp_def)
  with l n u show ?thesis by blast
qed

text \<open>
  When the display dates of the column are found, the two processors give the same status
  column, or raise the same exception.
\<close>

lemma columnas_status_iguales:
  assumes fs: "fechas_columna env (map Created_at t) = Inr fechas"
  shows "fan_columna_status env t = fa_columna_status env t"
proof (cases "fecha_archivo env t")
  case (Inl e)
  then show ?thesis
    by (simp add: fan_columna_status_def fa_columna_status_def
        fa_procesar_archivo_fecha_raises fan_procesar_archivo_fecha_raises)
next
  case (Inr fecha)
  show ?thesis
  proof (cases "list_all nota_legible t")
    case False
    then show ?thesis
      by (simp add: fan_columna_status_def fa_columna_status_def
          fa_procesar_archivo_nota_raises[OF Inr fs] fan_procesar_archivo_nota_raises[OF Inr])
  next
    case True
    from fa_columna_status_legible[OF Inr fs True] obtain cl :: "arg_row list" and u where
      a: "length cl = length t"
        "\<forall>i<length t. Name (cl ! i) = Name (t ! i) \<and>
                  fa_status_fila (fa_limpiar_dni (t ! i)) [] = Inr (Status (cl ! i))"
        "unificar_status cl = Inr u" "fa_columna_status env t = Inr (map Status u)" by blast
    from fan_columna_status_legible[OF Inr True] obtain cl' :: "and_row list" and u' where
      b: "length cl' = length t"
        "\<forall>i<length t. Name (cl' ! i) = Name (t ! i) \<and>
                  fa_status_fila (fan_limpiar (t ! i)) [] = Inr (Status (cl' ! i))"
        "unificar_status cl' = Inr u'" "fan_columna_status env t = Inr (map Status u')" by blast
    from b(2) have b2: "\<forall>i<length t. Name (cl' ! i) = Name (t ! i) \<and>
                  fa_status_fila (fa_limpiar_dni (t ! i)) [] = Inr (Status (cl' ! i))"
      by (simp add: fa_status_fila_fan_limpiar)
    have "map clave_status cl' = map clave_status cl"
      by (rule claves_nth[where F="\<lambda>r. fa_status_fila (fa_limpiar_dni r) []", OF b(1) a(1) b2 a(2)])
    from unificar_status_claves[OF this b(3) a(3)] a(4) b(4) show ?thesis by simp
  qed
qed

text \<open>
  The carrier processor gives the same status column on the source table and on the
  source table as the generic processor leaves it.
\<close>

lemma fan_columna_status_despues:
  "fan_columna_status env (map fa_limpiar_dni t) = fan_columna_status env t"
proof (cases "fecha_archivo env t")
  case (Inl e)
  then have "fecha_archivo env (map fa_limpiar_dni t) = Inl e" by (simp add: fecha_archivo_limpiar)
  with Inl show ?thesis
    by (simp add: fan_columna_status_def fan_procesar_archivo_fecha_raises)
next
  case (Inr fecha)
  then have Inr': "fecha_archivo env (map fa_limpiar_dni t) = Inr fecha"
    by (simp add: fecha_archivo_limpiar)
  show ?thesis
  proof (cases "list_all nota_legible t")
    case False
    then have "\<not> list_all nota_legible (map fa_limpiar_dni t)" by simp
    with False show ?thesis
      by (simp add: fan_columna_status_def fan_procesar_archivo_nota_raises[OF Inr]
          fan_procesar_archivo_nota_raises[OF Inr'])
  next
    case True
    then have T: "list_all nota_legible (map fa_limpiar_dni t)" by simp
    from fan_columna_status_legible[OF Inr True] obtain cl :: "and_row list" and u where
      a: "length cl = length t"
        "\<forall>i<length t. Name (cl ! i) = Name (t ! i) \<and>
                  fa_status_fila (fan_limpiar (t ! i)) [] = Inr (Status (cl ! i))"
        "unificar_status cl = Inr u" "fan_columna_status env t = Inr (map Status u)" by blast
    from fan_columna_status_legible[OF Inr' T] obtain cl' :: "and_row list" and u' where
      b: "length cl' = length (map fa_limpiar_dni t)"
        "\<forall>i<length (map fa_limpiar_dni t). Name (cl' ! i) = Name (map fa_limpiar_dni t ! i) \<and>
                  fa_status_fila (fan_limpiar (map fa_limpiar_dni t ! i)) [] = Inr (Status (cl' ! i))"
        "unificar_status cl' = Inr u'"
        "fan_columna_status env (map fa_limpiar_dni t) = Inr (map Status u')" by blast
    from b(1) have b1: "length cl' = length t" by simp
    from b(2) have b2: "\<forall>i<length t. Name (cl' ! i) = Name (t ! i) \<and>
                  fa_status_fila (fa_limpiar_dni (t ! i)) [] = Inr (Status (cl' ! i))"
      by (simp add: fa_status_fila_fan_limpiar_despues)
    from a(2) have a2: "\<forall>i<length t. Name (cl ! i) = Name (t ! i) \<and>
                  fa_status_fila (fa_limpiar_dni (t ! i)) [] = Inr (Status (cl ! i))"
      by (simp add: fa_status_fila_fan_limpiar)
    have "map clave_status cl' = map clave_status cl"
      by (rule claves_nth[where F="\<lambda>r. fa_status_fila (fa_limpiar_dni r) []", OF b1 a(1) b2 a2])
    from unificar_status_claves[OF this b(3) a(3)] a(4) b(4) show ?thesis by simp
  qed
qed

text \<open>When the generic processor returns, the carrier processor returns the same column,
  on the source table and on the table the generic processor leaves.\<close>

lemma columna_status_tras_fa:
  assumes "fa_procesar_archivo env t = Inr (t', final, fecha, e)"
  shows "fa_columna_status env t = Inr (map Status final) \<and>
         fan_columna_status env t = Inr (map Status final) \<and>
         fan_columna_status env t' = Inr (map Status final)"
proof -
  from fa_procesar_archivo_Inr[OF assms] obtain fechas where
    fs: "fechas_columna env (map Created_at t) = Inr fechas" and t': "t' = map fa_limpiar_dni t"
    by blast
  have 1: "fa_columna_status env t = Inr (map Status final)"
    using assms by (simp add: fa_columna_status_def)
  have 2: "fan_columna_status env t = Inr (map Status final)"
    using columnas_status_iguales[OF fs] 1 by simp
  have 3: "fan_columna_status env t' = Inr (map Status final)"
    unfolding t' fan_columna_status_despues by (rule 2)
  from 1 2 3 show ?thesis by blast
qed

lemma ejemplo_columnas_iguales:
  "fa_columna_status entorno_ej ej_dni_puntos = Inr [''FALTA PAGAR'', []]
   \<and> fan_columna_status entorno_ej ej_dni_puntos = Inr [''FALTA PAGAR'', []]
   \<and> fan_columna_status entorno_ej (map fa_limpiar_dni ej_dni_puntos) = Inr [''FALTA PAGAR'', []]"
  by code_simp


section \<open>The id field with a DNI prefix\<close>

text \<open>
  After step 4 the id field holds no space, so it never starts with \<open>DNI \<close>; on a paid
  line loop 1 then only asks whether the cleaned id field is numeric.
\<close>

lemma startswith_DNI_limpio:
  "\<not> startswith (replace_char CHR '' '' s) ''DNI ''"
proof
  assume "startswith (replace_char CHR '' '' s) ''DNI ''"
  then have "take (length ''DNI '') (replace_char CHR '' '' s) = ''DNI ''"
    by (simp only: startswith_def)
  then have "CHR '' '' \<in> set (take (length ''DNI '') (replace_char CHR '' '' s))"
    by (simp only: list.set) simp
  then have "CHR '' '' \<in> set (replace_char CHR '' '' s)" by (rule in_set_takeD)
  then show False by (simp add: replace_char_def)
qed

lemma fa_bucle1_paid:
  assumes "Financial_Status r = Str ''paid''"
  shows "fa_bucle1 (fa_limpiar_dni r) st =
     (if isnumeric (replace_char CHR '' '' (replace_char CHR ''.'' (py_str (Shipping_Company r))))
      then st else ''REVISAR DNI'')"
  using assms
  by (simp add: fa_bucle1_def Shipping_Company_limpiar eq_str_def startswith_DNI_limpio)

lemma fan_bucle1_paid:
  assumes "Financial_Status r = Str ''paid''"
  shows "fan_bucle1 (fan_limpiar r) st =
     (if isnumeric (replace_char CHR '' '' (replace_char CHR ''.'' (py_str (Shipping_Company r))))
      then st else ''REVISAR DNI'')"
  using assms
  by (simp add: fan_bucle1_def Shipping_Company_limpiar eq_str_def startswith_DNI_limpio)

lemma id_12A34_flagged:
  "fa_bucle1 (fa_limpiar_dni
       (linea ''#1001'' (Str ''paid'') (Str ''5000'') (Str ''Correo Argentino'') (Str ''12A34'') NaN))
     [] = ''REVISAR DNI''"
  by code_simp

text \<open>
  C2. The claim: a paid line whose id field starts with \<open>DNI \<close> is never given
  REVISAR DNI. Both processors strip every space from the id field before loop 1 tests the
  prefix \<open>DNI \<close>, so the test never succeeds: the paid line with id field
  \<open>DNI 12345678\<close>, a postal code outside CABA, an ordinary shipping method and no
  note ends with REVISAR DNI in both layouts.
\<close>

theorem dni_prefix_flagged:
  "fa_columna_status entorno_ej
     [linea ''#1001'' (Str ''paid'') (Str ''5000'') (Str ''Correo Argentino'')
        (Str ''DNI 12345678'') NaN] = Inr [''REVISAR DNI'']
   \<and> fan_columna_status entorno_ej
     [linea ''#1001'' (Str ''paid'') (Str ''5000'') (Str ''Correo Argentino'')
        (Str ''DNI 12345678'') NaN] = Inr [''REVISAR DNI'']"
  by code_simp

section \<open>When a run raises\<close>

text \<open>
  The generic processor raises exactly when the date of the file is not-a-time, or the
  display dates of the column cannot be formatted, or a paid line has a number as note.
\<close>

lemma fa_procesar_archivo_raises_iff:
  "(\<exists>e. fa_procesar_archivo env t = Inl e) \<longleftrightarrow>
     (\<exists>e. fecha_archivo env t = Inl e) \<or>
     (\<exists>e. fechas_columna env (map Created_at t) = Inl e) \<or>
     \<not> list_all nota_legible t"
proof (cases "fecha_archivo env t")
  case (Inl e)
  with fa_procesar_archivo_fecha_raises[OF Inl] show ?thesis by auto
next
  case (Inr fecha)
  show ?thesis
  proof (cases "fechas_columna env (map Created_at t)")
    case (Inl e)
    with fa_procesar_archivo_columna_raises[OF Inr Inl] show ?thesis by auto
  next
    case fs: (Inr fechas)
    show ?thesis
    proof (cases "list_all nota_legible t")
      case True
      from fa_procesar_archivo_devuelve[OF Inr fs True] Inr fs True show ?thesis by auto
    next
      case False
      with fa_procesar_archivo_nota_raises[OF Inr fs False] show ?thesis by auto
    qed
  qed
qed

lemma fecha_archivo_raises_iff:
  "(\<exists>e. fecha_archivo env t = Inl e) \<longleftrightarrow> primera_fecha (to_datetime env) t = Some NaT"
  by (auto simp: fecha_archivo_def split: option.splits marca.splits)

lemma fecha_NaT_raises:
  "fa_procesar_archivo entorno_ej
     [(linea ''#1001'' (Str ''paid'') (Str ''5000'') (Str ''Correo Argentino'')
         (Str ''12345678'') NaN)\<lparr>Created_at := Str ''NaT''\<rparr>] = Inl ValueError
   \<and> fan_procesar_archivo entorno_ej
     [(linea ''#1001'' (Str ''paid'') (Str ''5000'') (Str ''Correo Argentino'')
         (Str ''12345678'') NaN)\<lparr>Created_at := Str ''NaT''\<rparr>] = Inl ValueError"
  by code_simp

text \<open>
  C3. The claim: with every column present the function returns, whatever the cells hold.
  A paid line whose note is a number (a notes column of digits only is read as numbers)
  reaches \<open>note.strip()\<close> in loop 4, and both processors end with AttributeError.
\<close>

theorem numeric_note_raises:
  "fa_procesar_archivo entorno_ej
     [linea ''#1001'' (Str ''paid'') (Str ''5000'') (Str ''Correo Argentino'')
        (Str ''12345678'') (Num ''123.0'')] = Inl AttributeError
   \<and> fan_procesar_archivo entorno_ej
     [linea ''#1001'' (Str ''paid'') (Str ''5000'') (Str ''Correo Argentino'')
        (Str ''12345678'') (Num ''123.0'')] = Inl AttributeError"
  by code_simp

section \<open>The total of the statistics\<close>

text \<open>
  Each count is the number of distinct order numbers among the lines with that status,
  and the example of two CABA lines of one order gives CABA 1 and total 1.
\<close>

lemma contar_card:
  "contar k df = card {n. \<exists>r\<in>set df. Status r = k \<and> Name r = n}"
proof -
  have "set (map Name (filter (\<lambda>r. Status r = k) df)) = {n. \<exists>r\<in>set df. Status r = k \<and> Name r = n}"
    by auto
  then show ?thesis by (simp add: contar_def length_remdups_card_conv)
qed

lemma end_to_end_example:
  "fa_resumen entorno_ej
     [linea ''#1001'' (Str ''paid'') (Str ''C1420'') (Str ''Correo Argentino'') (Str ''12345678'') NaN,
      linea ''#1001'' (Str ''paid'') (Str ''C1420'') (Str ''Correo Argentino'') (Str ''12345678'') NaN]
   = Inr ([''CABA'', ''CABA''], 1,
          \<lparr>caba = 1, falta_pagar = 0, vencido = 0, reembolsado = 0, notas = 0,
           sin_clasificar = 0, revisar_dni = 0\<rparr>, 1)"
  by code_simp

text \<open>
  C8. The claim: the total equals the number of distinct orders of the batch. The total is
  the sum of the seven counts, and no count covers PRIORITARIO, CABA PRIORITARIO or
  TIERRA DEL FUEGO: a batch of one paid order with the priority method and a postal code
  outside CABA has one distinct order, status PRIORITARIO, seven counts of zero and
  total zero.
\<close>

theorem total_misses_prioritario:
  "fa_resumen entorno_ej
     [linea ''#1001'' (Str ''paid'') (Str ''5000'') (Str envio_prioritario)
        (Str ''12345678'') NaN]
   = Inr ([''PRIORITARIO''], 1,
          \<lparr>caba = 0, falta_pagar = 0, vencido = 0, reembolsado = 0, notas = 0,
           sin_clasificar = 0, revisar_dni = 0\<rparr>, 0)"
  by code_simp

end
